theory Spec2Isabelle
  imports Complex_Main "HOL-Library.Sublist"
begin

section \<open>Python strings\<close>

text \<open>
  A Python \<^verbatim>\<open>str\<close> is a sequence of Unicode code points. A code point is modelled as a
  natural number and a string as a list of them, so that the bullet glyph U+2022 of
  the fallback outline and the Unicode white space that \<^verbatim>\<open>str.strip\<close> removes are
  represented as they are. \<open>py ''abc''\<close> is the string of an ASCII literal.
\<close>

type_synonym pystr = "nat list"

abbreviation py :: "string \<Rightarrow> pystr" where
  "py s \<equiv> map of_char s"

text \<open>
  \<^verbatim>\<open>str.isspace\<close> on one character, the test behind \<^verbatim>\<open>strip()\<close>, \<^verbatim>\<open>split()\<close> and the
  regular expression class \<^verbatim>\<open>\s\<close>: U+0009..U+000D, U+001C..U+001F, U+0020, U+0085, U+00A0,
  U+1680, U+2000..U+200A, U+2028, U+2029, U+202F, U+205F, U+3000.
\<close>

definition isspace :: "nat \<Rightarrow> bool" where
  "isspace c \<longleftrightarrow>
     (9 \<le> c \<and> c \<le> 13) \<or> (28 \<le> c \<and> c \<le> 32) \<or> c = 133 \<or> c = 160 \<or> c = 5760 \<or>
     (8192 \<le> c \<and> c \<le> 8202) \<or> c = 8232 \<or> c = 8233 \<or> c = 8239 \<or> c = 8287 \<or> c = 12288"

text \<open>\<^verbatim>\<open>s.strip()\<close>: white space removed at both ends.\<close>

definition strip :: "pystr \<Rightarrow> pystr" where
  "strip s = rev (dropWhile isspace (rev (dropWhile isspace s)))"

text \<open>
  \<^verbatim>\<open>s.split()\<close>: the maximal runs of characters that are not white space, in order.
  \<open>split_from w s\<close> scans \<open>s\<close> with the characters of the word being read in \<open>w\<close>
  (latest first).
\<close>

fun split_from :: "pystr \<Rightarrow> pystr \<Rightarrow> pystr list" where
  "split_from w [] = (if w = [] then [] else [rev w])"
| "split_from w (c # cs) =
     (if isspace c then (if w = [] then split_from [] cs else rev w # split_from [] cs)
      else split_from (c # w) cs)"

definition split :: "pystr \<Rightarrow> pystr list" where
  "split s = split_from [] s"

text \<open>\<^verbatim>\<open>word in text\<close> on strings: \<open>word\<close> occurs in \<open>text\<close> as a contiguous substring.\<close>

fun py_in :: "pystr \<Rightarrow> pystr \<Rightarrow> bool" where
  "py_in w [] = (w = [])"
| "py_in w (c # cs) = (prefix w (c # cs) \<or> py_in w cs)"

text \<open>\<^verbatim>\<open>text.count(c)\<close> for a one-character string \<open>c\<close>.\<close>

definition count_char :: "pystr \<Rightarrow> nat \<Rightarrow> nat" where
  "count_char s c = length (filter (\<lambda>x. x = c) s)"

text \<open>
  The number of positions of \<open>text\<close> at which \<open>word\<close> begins: the occurrences of a
  keyword, as the specification counts them.
\<close>

fun occurrences :: "pystr \<Rightarrow> pystr \<Rightarrow> nat" where
  "occurrences w [] = (if w = [] then 1 else 0)"
| "occurrences w (c # cs) = (if prefix w (c # cs) then 1 else 0) + occurrences w cs"

section \<open>Values, exceptions and the Python library\<close>

text \<open>
  The values that \<^verbatim>\<open>json.loads\<close> and \<^verbatim>\<open>ast.literal_eval\<close> return. The code tests a value
  with \<^verbatim>\<open>isinstance\<close> against \<^verbatim>\<open>list\<close>, \<^verbatim>\<open>dict\<close> and \<^verbatim>\<open>str\<close>, looks up the string keys
  \<^verbatim>\<open>"title"\<close> and \<^verbatim>\<open>"points"\<close> of a dict, and applies \<^verbatim>\<open>str()\<close>. A dict is the list of
  its items with a string key (keys are distinct; a key that is not a string can never
  equal \<^verbatim>\<open>"title"\<close> or \<^verbatim>\<open>"points"\<close>). \<open>POther\<close> stands for a value of any further type
  (float, tuple, set, bytes), named by some text.
\<close>

datatype pyval =
    PNone
  | PBool bool
  | PInt int
  | PStr pystr
  | PList "pyval list"
  | PDict "(pystr \<times> pyval) list"
  | POther pystr

text \<open>
  Exceptions, each with the text \<^verbatim>\<open>str(e)\<close> gives. \<open>GenerationStopped\<close> and
  \<open>PPTGenerationError\<close> are the two classes of the module; \<open>TimeoutExpired\<close> and
  \<open>FileNotFoundError\<close> are the two library classes \<^verbatim>\<open>ask_ollama\<close> catches by name;
  \<open>OtherException\<close> is any other subclass of \<^verbatim>\<open>Exception\<close>.
\<close>

datatype exn =
    GenerationStopped pystr
  | PPTGenerationError pystr
  | TimeoutExpired pystr
  | FileNotFoundError pystr
  | OtherException pystr

fun exn_str :: "exn \<Rightarrow> pystr" where
  "exn_str (GenerationStopped m) = m"
| "exn_str (PPTGenerationError m) = m"
| "exn_str (TimeoutExpired m) = m"
| "exn_str (FileNotFoundError m) = m"
| "exn_str (OtherException m) = m"

text \<open>
  The library functions the module calls and does not define. They are parameters of
  the model: \<^verbatim>\<open>str.lower\<close>; the two parsers, which return a value or raise; \<^verbatim>\<open>str()\<close> on a
  value that is not a string, which returns the text or raises (CPython raises
  \<^verbatim>\<open>ValueError\<close> on an integer of more than 4300 digits, and \<^verbatim>\<open>ast.literal_eval\<close> reads
  such an integer from a hexadecimal literal); \<^verbatim>\<open>str.format\<close> with keyword arguments,
  which returns the text or raises.
\<close>

record pylib =
  lower :: "pystr \<Rightarrow> pystr"
  json_loads :: "pystr \<Rightarrow> exn + pyval"
  literal_eval :: "pystr \<Rightarrow> exn + pyval"
  str_of :: "pyval \<Rightarrow> exn + pystr"
  format :: "pystr \<Rightarrow> (pystr \<times> pyval) list \<Rightarrow> exn + pystr"

text \<open>
  \<^verbatim>\<open>str(v)\<close>: a string is returned as it is; on any other value the result, or the
  exception, is the library's.
\<close>

definition py_str :: "pylib \<Rightarrow> pyval \<Rightarrow> exn + pystr" where
  "py_str L v = (case v of PStr s \<Rightarrow> Inr s | _ \<Rightarrow> str_of L v)"

text \<open>The decimal digits of an integer, with its sign.\<close>

function digits :: "nat \<Rightarrow> pystr" where
  "digits n = (if n < 10 then [48 + n] else digits (n div 10) @ [48 + n mod 10])"
  by pat_completeness auto
termination
  by (relation "measure id") auto

declare digits.simps [simp del]

definition str_int :: "int \<Rightarrow> pystr" where
  "str_int i = (if i < 0 then of_char CHR ''-'' # digits (nat (- i)) else digits (nat i))"

section \<open>Content analysis\<close>

text \<open>
  The three keyword tables of \<^verbatim>\<open>complexity_indicators\<close>.
\<close>

definition broad :: "pystr list" where
  "broad = [py ''overview'', py ''introduction'', py ''complete'', py ''comprehensive'',
            py ''full'', py ''entire'']"

definition process :: "pystr list" where
  "process = [py ''process'', py ''steps'', py ''workflow'', py ''procedure'',
              py ''implementation'']"

definition training :: "pystr list" where
  "training = [py ''training'', py ''course'', py ''learning'', py ''education'',
               py ''tutorial'']"

text \<open>
  \<^verbatim>\<open>estimate_slide_count_from_keywords\<close>. The score is a Python float; every term is a multiple
  of one half far below \<open>2^53\<close>, so the float arithmetic is exact and the score is
  modelled as a rational. \<^verbatim>\<open>int(score + 5)\<close> truncates, which is the floor of a
  non-negative number.
\<close>

definition estimate_slide_count_from_keywords :: "pylib \<Rightarrow> pystr \<Rightarrow> int" where
  "estimate_slide_count_from_keywords L user_input =
     (let text = lower L user_input;
          score = (0 :: rat);
          score = score + sum_list [2. word \<leftarrow> broad, py_in word text];
          score = score + sum_list [3 / 2. word \<leftarrow> process, py_in word text];
          score = score + sum_list [2. word \<leftarrow> training, py_in word text];
          score = score + of_nat (count_char text (of_char CHR '','')) * (1 / 2);
          score = score + of_nat (length (split user_input) div 25)
      in max 3 (min 18 (\<lfloor>score + 5\<rfloor>)))"

text \<open>
  The same heuristic in the words of the specification: 2 for each occurrence of a
  broad-scope keyword, 1.5 for each occurrence of a process keyword, 2 for each
  occurrence of a training keyword.
\<close>

definition spec_slide_count :: "pylib \<Rightarrow> pystr \<Rightarrow> int" where
  "spec_slide_count L user_input =
     (let text = lower L user_input;
          score = (5 :: rat)
                  + 2 * of_nat (sum_list (map (\<lambda>w. occurrences w text) broad))
                  + (3 / 2) * of_nat (sum_list (map (\<lambda>w. occurrences w text) process))
                  + 2 * of_nat (sum_list (map (\<lambda>w. occurrences w text) training))
                  + (1 / 2) * of_nat (count_char text (of_char CHR '',''))
                  + of_nat (length (split user_input) div 25)
      in max 3 (min 18 (\<lfloor>score\<rfloor>)))"

section \<open>JSON processing\<close>

text \<open>
  \<^verbatim>\<open>re.search(r"<json>\s*(.*?)\s*</json>", text, re.DOTALL | re.IGNORECASE)\<close>.
  Under \<^verbatim>\<open>IGNORECASE\<close> a letter of the pattern matches its two cases, and \<open>s\<close> also
  matches U+017F (long s). A tag is a list of character classes.
\<close>

definition open_tag :: "nat list list" where
  "open_tag = [[of_char CHR ''<''], [of_char CHR ''j'', of_char CHR ''J''],
               [of_char CHR ''s'', of_char CHR ''S'', 383],
               [of_char CHR ''o'', of_char CHR ''O''], [of_char CHR ''n'', of_char CHR ''N''],
               [of_char CHR ''>'']]"

definition close_tag :: "nat list list" where
  "close_tag = [[of_char CHR ''<''], [of_char CHR ''/''], [of_char CHR ''j'', of_char CHR ''J''],
                [of_char CHR ''s'', of_char CHR ''S'', 383],
                [of_char CHR ''o'', of_char CHR ''O''], [of_char CHR ''n'', of_char CHR ''N''],
                [of_char CHR ''>'']]"

fun tag_here :: "nat list list \<Rightarrow> pystr \<Rightarrow> bool" where
  "tag_here [] s = True"
| "tag_here (cls # pat) [] = False"
| "tag_here (cls # pat) (c # cs) = (c \<in> set cls \<and> tag_here pat cs)"

fun find_tag :: "nat list list \<Rightarrow> pystr \<Rightarrow> nat option" where
  "find_tag pat [] = None"
| "find_tag pat (c # cs) =
     (if tag_here pat (c # cs) then Some 0 else map_option Suc (find_tag pat cs))"

text \<open>
  The search succeeds exactly when some closing tag begins at or after the end of the
  first opening tag: the leftmost match starts at the first opening tag, the lazy group
  ends before the first closing tag after it, and the two \<^verbatim>\<open>\s*\<close> keep the white space
  at both ends out of the group. \<open>json_match\<close> is \<^verbatim>\<open>group(1)\<close> of the match.
\<close>

definition json_match :: "pystr \<Rightarrow> pystr option" where
  "json_match text =
     (case find_tag open_tag text of
        None \<Rightarrow> None
      | Some i \<Rightarrow>
          (let rest = drop (i + length open_tag) text
           in case find_tag close_tag rest of
                None \<Rightarrow> None
              | Some j \<Rightarrow> Some (strip (take j rest))))"

text \<open>\<^verbatim>\<open>text.find(c)\<close> for a one-character string: the first index, \<open>None\<close> for \<open>-1\<close>.\<close>

fun find_char :: "nat \<Rightarrow> pystr \<Rightarrow> nat option" where
  "find_char x [] = None"
| "find_char x (c # cs) = (if c = x then Some 0 else map_option Suc (find_char x cs))"

text \<open>
  The depth loop of strategy 2 over \<^verbatim>\<open>text[start:]\<close>: \<open>scan depth cs n\<close> has read \<open>n\<close>
  characters and returns the length \<^verbatim>\<open>i + 1 - start\<close> of the candidate at the \<^verbatim>\<open>break\<close>,
  \<open>None\<close> when the loop ends without it (the \<^verbatim>\<open>else\<close> of the \<^verbatim>\<open>for\<close>).
\<close>

fun scan :: "int \<Rightarrow> pystr \<Rightarrow> nat \<Rightarrow> nat option" where
  "scan depth [] n = None"
| "scan depth (ch # cs) n =
     (if ch = of_char CHR ''['' then scan (depth + 1) cs (n + 1)
      else if ch = of_char CHR '']'' then
        (if depth - 1 = 0 then Some (n + 1) else scan (depth - 1) cs (n + 1))
      else scan depth cs (n + 1))"

definition first_array :: "pystr \<Rightarrow> pystr option" where
  "first_array text =
     (case find_char (of_char CHR ''['') text of
        None \<Rightarrow> None
      | Some start \<Rightarrow>
          (case scan 0 (drop start text) 0 of
             None \<Rightarrow> None
           | Some len \<Rightarrow> Some (strip (take len (drop start text)))))"

text \<open>
  \<^verbatim>\<open>s.replace(old, new)\<close> for a non-empty \<open>old\<close>: the occurrences of \<open>old\<close> are replaced
  from left to right without overlap. \<open>replace_from old new k s\<close> still has \<open>k\<close>
  characters of the occurrence just replaced to skip.
\<close>

fun replace_from :: "pystr \<Rightarrow> pystr \<Rightarrow> nat \<Rightarrow> pystr \<Rightarrow> pystr" where
  "replace_from old new k [] = []"
| "replace_from old new (Suc k) (c # cs) = replace_from old new k cs"
| "replace_from old new 0 (c # cs) =
     (if prefix old (c # cs) then new @ replace_from old new (length old - 1) cs
      else c # replace_from old new 0 cs)"

definition replace :: "pystr \<Rightarrow> pystr \<Rightarrow> pystr \<Rightarrow> pystr" where
  "replace old new s = replace_from old new 0 s"

text \<open>
  \<^verbatim>\<open>re.sub(r",\s*([\]\}])", r"\1", s)\<close>: a comma, the white space after it and a closing
  bracket or brace are replaced by the bracket or brace alone.
\<close>

fun sub_trailing_commas :: "nat \<Rightarrow> pystr \<Rightarrow> pystr" where
  "sub_trailing_commas k [] = []"
| "sub_trailing_commas (Suc k) (c # cs) = sub_trailing_commas k cs"
| "sub_trailing_commas 0 (c # cs) =
     (if c = of_char CHR '','' then
        (case dropWhile isspace cs of
           [] \<Rightarrow> c # sub_trailing_commas 0 cs
         | d # ds \<Rightarrow>
             if d = of_char CHR '']'' \<or> d = of_char CHR ''}''
             then d # sub_trailing_commas (length (takeWhile isspace cs) + 1) cs
             else c # sub_trailing_commas 0 cs)
      else c # sub_trailing_commas 0 cs)"

text \<open>
  The clean-up of the candidate, as the source text has it. In the first line of
  replacements the search string opens with three double quotes, so it is the
  triple-quoted string \<^verbatim>\<open>, '"').replace(\<close> and there is one call, with \<^verbatim>\<open>"\<close> as the
  replacement. The second line replaces an apostrophe by itself, twice. The third
  replaces U+2013 and U+2014 by a hyphen.
\<close>

definition clean :: "pystr \<Rightarrow> pystr" where
  "clean json_str =
     (let json_str = replace (py '', '' @ [39, 34, 39] @ py '').replace('') [34] json_str;
          json_str = replace [39] [39] (replace [39] [39] json_str);
          json_str = replace [8212] (py ''-'') (replace [8211] (py ''-'') json_str)
      in sub_trailing_commas 0 json_str)"

text \<open>
  The parse attempts: each parser is tried in turn; a result that is not a list and
  any exception (the bare \<^verbatim>\<open>except\<close>) move on to the next parser.
\<close>

fun parse_attempts :: "(pystr \<Rightarrow> exn + pyval) list \<Rightarrow> pystr \<Rightarrow> exn + pyval list option" where
  "parse_attempts [] json_str = Inr None"
| "parse_attempts (parser # parsers) json_str =
     (case parser json_str of
        Inl e \<Rightarrow> parse_attempts parsers json_str
      | Inr (PList result) \<Rightarrow> Inr (Some result)
      | Inr _ \<Rightarrow> parse_attempts parsers json_str)"

text \<open>
  \<^verbatim>\<open>extract_and_parse_json\<close>. The result is \<open>Inr None\<close> for Python's \<^verbatim>\<open>None\<close>,
  \<open>Inr (Some xs)\<close> for a list, \<open>Inl e\<close> for an exception that leaves the function.
\<close>

definition extract_and_parse_json :: "pylib \<Rightarrow> pystr \<Rightarrow> exn + pyval list option" where
  "extract_and_parse_json L text =
     (if text = [] then Inr None
      else
        (case (case json_match text of
                 Some g \<Rightarrow> Some (strip g)
               | None \<Rightarrow> first_array text) of
           None \<Rightarrow> Inr None
         | Some json_str \<Rightarrow> parse_attempts [json_loads L, literal_eval L] (clean json_str)))"

text \<open>\<^verbatim>\<open>data[:n]\<close>: a negative \<open>n\<close> counts from the end.\<close>

definition slice_to :: "'a list \<Rightarrow> int \<Rightarrow> 'a list" where
  "slice_to data n = (if 0 \<le> n then take (nat n) data else take (length data - nat (- n)) data)"

text \<open>\<^verbatim>\<open>d.get(key, default)\<close>.\<close>

definition dict_get :: "(pystr \<times> pyval) list \<Rightarrow> pystr \<Rightarrow> pyval \<Rightarrow> pyval" where
  "dict_get d key dflt = (case map_of d key of None \<Rightarrow> dflt | Some v \<Rightarrow> v)"

record slide =
  title :: pystr
  points :: "pystr list"

text \<open>The inner loop of \<^verbatim>\<open>validate_and_coerce_slides\<close>, which fills \<^verbatim>\<open>clean_points\<close>.\<close>

fun clean_points :: "pyval list \<Rightarrow> pystr list" where
  "clean_points [] = []"
| "clean_points (PStr point # rest) =
     (if strip point \<noteq> [] then strip point # clean_points rest else clean_points rest)"
| "clean_points (point # rest) = clean_points rest"

text \<open>
  The outer loop, over \<^verbatim>\<open>data[:max_slides]\<close>. An exception of \<^verbatim>\<open>str()\<close> on a title leaves
  the function at that item; the slides are returned when the loop ends.
\<close>

fun coerce_items :: "pylib \<Rightarrow> pyval list \<Rightarrow> exn + slide list" where
  "coerce_items L [] = Inr []"
| "coerce_items L (PDict item # rest) =
     (case py_str L (dict_get item (py ''title'') (PStr (py ''Untitled Slide''))) of
        Inl e \<Rightarrow> Inl e
      | Inr title_text \<Rightarrow>
          (let pts = dict_get item (py ''points'') (PList []);
               pts = (case pts of PList ps \<Rightarrow> ps | _ \<Rightarrow> [])
           in case coerce_items L rest of
                Inl e \<Rightarrow> Inl e
              | Inr slides \<Rightarrow> Inr (\<lparr>title = title_text, points = clean_points pts\<rparr> # slides)))"
| "coerce_items L (item # rest) = coerce_items L rest"

definition validate_and_coerce_slides :: "pylib \<Rightarrow> pyval list \<Rightarrow> int \<Rightarrow> exn + slide list" where
  "validate_and_coerce_slides L data max_slides = coerce_items L (slice_to data max_slides)"

section \<open>The environment of a generation run\<close>

text \<open>
  The mapping \<^verbatim>\<open>load_config()\<close> returns, with values of the types of the defaults.
\<close>

record config =
  cfg_system_prompt :: pystr
  cfg_adaptive_prompt_template :: pystr
  cfg_min_points :: int
  cfg_max_points :: int
  cfg_max_slides :: int
  cfg_min_slides :: int
  cfg_model :: pystr
  cfg_ollama_timeout :: int

text \<open>
  The places where the code reads \<^verbatim>\<open>stop_event.is_set()\<close>, in program order: lines 474,
  128, 163, 168, 183, 500, 508 and 527 of \<^verbatim>\<open>backend.py\<close>.
\<close>

datatype checkpoint =
    BeforeStart
  | AskEntry
  | AfterCommunicate
  | NonZeroExit
  | ExceptHandler
  | AfterResponse
  | AfterEmptyParse
  | BeforeRender

text \<open>
  What the \<^verbatim>\<open>ollama run\<close> process does: \<^verbatim>\<open>Popen\<close> raises, \<^verbatim>\<open>communicate\<close> raises, or the
  process exits with a return code, its output and its error output.
\<close>

datatype proc_outcome =
    PopenRaises exn
  | CommunicateRaises exn
  | Exited int pystr pystr

text \<open>The effects of a run, in the order in which they happen.\<close>

datatype event =
    LoadConfig
  | RunOllama pystr pystr
  | KillProcess
  | Render "(pystr \<times> pystr list) list"

text \<open>
  Everything a run reads from outside: the library; the \<^verbatim>\<open>stop_event\<close> argument
  (\<open>None\<close>, or an event whose flag reads as given at each checkpoint); the
  configuration; the process, by model, prompt and timeout; the presentation library,
  which is handed the title and the paragraphs of every slide, the template in use, the
  font name and size, and returns the name of the saved file or raises;
  \<^verbatim>\<open>os.path.exists\<close>.
\<close>

record world =
  lib :: pylib
  stop_event :: "(checkpoint \<Rightarrow> bool) option"
  load_config :: config
  ollama :: "pystr \<Rightarrow> pystr \<Rightarrow> int \<Rightarrow> proc_outcome"
  pptx :: "(pystr \<times> pystr list) list \<Rightarrow> pystr option \<Rightarrow> pystr \<Rightarrow> int \<Rightarrow> exn + pystr"
  path_exists :: "pystr \<Rightarrow> bool"

text \<open>\<^verbatim>\<open>stop_event and stop_event.is_set()\<close>.\<close>

definition stopped :: "world \<Rightarrow> checkpoint \<Rightarrow> bool" where
  "stopped w cp = (case stop_event w of None \<Rightarrow> False | Some is_set \<Rightarrow> is_set cp)"

definition stop_exn :: exn where
  "stop_exn = GenerationStopped (py ''Generation stopped by user'')"

section \<open>LLM integration with stop support\<close>

text \<open>The body of the \<^verbatim>\<open>try\<close> of \<^verbatim>\<open>ask_ollama\<close>.\<close>

definition ask_ollama_try :: "world \<Rightarrow> int \<Rightarrow> pystr \<Rightarrow> pystr \<Rightarrow> exn + pystr" where
  "ask_ollama_try w timeout prompt model_name =
     (case ollama w model_name prompt timeout of
        PopenRaises e \<Rightarrow> Inl e
      | CommunicateRaises e \<Rightarrow> Inl e
      | Exited returncode stdout stderr \<Rightarrow>
          if stopped w AfterCommunicate then Inl stop_exn
          else if returncode \<noteq> 0 then
            (if stopped w NonZeroExit then Inl stop_exn
             else Inl (PPTGenerationError
                        (py ''Ollama failed: '' @
                         (if stderr \<noteq> [] then stderr else py ''Unknown error''))))
          else Inr (strip stdout))"

text \<open>
  The \<^verbatim>\<open>except\<close> clauses, in their order: the exception raised in the body is mapped to
  the one that leaves \<^verbatim>\<open>ask_ollama\<close>. A \<open>PPTGenerationError\<close> raised in the body reaches
  the last clause. The f-string of the first clause formats the timeout as \<^verbatim>\<open>str()\<close>
  does; an exception of that formatting leaves the clause.
\<close>

fun ask_ollama_except :: "world \<Rightarrow> int \<Rightarrow> exn \<Rightarrow> exn" where
  "ask_ollama_except w timeout (TimeoutExpired m) =
     (case py_str (lib w) (PInt timeout) of
        Inl e \<Rightarrow> e
      | Inr seconds \<Rightarrow>
          PPTGenerationError (py ''Ollama request timed out after '' @ seconds @ py '' seconds''))"
| "ask_ollama_except w timeout (FileNotFoundError m) =
     PPTGenerationError (py ''Ollama executable not found. Please install Ollama.'')"
| "ask_ollama_except w timeout (GenerationStopped m) = GenerationStopped m"
| "ask_ollama_except w timeout e =
     (if stopped w ExceptHandler then stop_exn
      else PPTGenerationError (py ''Ollama request failed: '' @ exn_str e))"

definition ask_ollama :: "world \<Rightarrow> int \<Rightarrow> pystr \<Rightarrow> pystr \<Rightarrow> (exn + pystr) \<times> event list" where
  "ask_ollama w timeout prompt model_name =
     (if stopped w AskEntry then (Inl stop_exn, [])
      else
        ((case ask_ollama_try w timeout prompt model_name of
            Inl e \<Rightarrow> Inl (ask_ollama_except w timeout e)
          | Inr response \<Rightarrow> Inr response),
         RunOllama model_name prompt #
         (case ollama w model_name prompt timeout of
            CommunicateRaises (TimeoutExpired m) \<Rightarrow> [KillProcess]
          | _ \<Rightarrow> [])))"

section \<open>PowerPoint creation\<close>

text \<open>
  The text of one paragraph: the point is trimmed, a leading bullet and then a leading
  hyphen are removed, and a bullet and a space are put in front.
\<close>

definition bullet_text :: "pystr \<Rightarrow> pystr" where
  "bullet_text point =
     (let point_text = strip point;
          point_text = (if prefix [8226] point_text then strip (drop 1 point_text) else point_text);
          point_text = (if prefix (py ''-'') point_text then strip (drop 1 point_text) else point_text)
      in [8226, 32] @ point_text)"

text \<open>
  What \<^verbatim>\<open>create_presentation\<close> writes for the slide at index \<open>idx\<close>: its title, and
  its points as paragraphs when it is not the first slide.
\<close>

definition slide_content :: "nat \<Rightarrow> slide \<Rightarrow> pystr \<times> pystr list" where
  "slide_content idx s =
     (title s, if 0 < idx \<and> points s \<noteq> [] then map bullet_text (points s) else [])"

text \<open>\<^verbatim>\<open>template_path and os.path.exists(template_path)\<close>, as a truth value.\<close>

definition template_found :: "world \<Rightarrow> pystr option \<Rightarrow> bool" where
  "template_found w template_path =
     (case template_path of None \<Rightarrow> False | Some p \<Rightarrow> p \<noteq> [] \<and> path_exists w p)"

definition create_presentation ::
  "world \<Rightarrow> slide list \<Rightarrow> pystr option \<Rightarrow> pystr \<Rightarrow> int \<Rightarrow> (exn + pystr) \<times> event list" where
  "create_presentation w slide_data template_path font_name font_size =
     (let template = (if template_found w template_path then template_path else None);
          contents = map (\<lambda>(idx, s). slide_content idx s) (enumerate 0 slide_data)
      in ((case pptx w contents template font_name font_size of
             Inl e \<Rightarrow> Inl (PPTGenerationError (py ''Failed to create presentation: '' @ exn_str e))
           | Inr file_name \<Rightarrow> Inr file_name),
          [Render contents]))"

section \<open>Main generation function\<close>

record metadata =
  md_slide_count :: nat
  md_topic :: pystr
  md_template_used :: bool

text \<open>The fallback outline of lines 513 to 521.\<close>

definition fallback_slides :: "pystr \<Rightarrow> pyval list" where
  "fallback_slides topic =
     [PDict [(py ''title'', PStr (if strip topic \<noteq> [] then strip topic else py ''Presentation'')),
             (py ''points'', PList [])],
      PDict [(py ''title'', PStr (py ''Overview'')),
             (py ''points'', PList
                [PStr ([8226, 32] @ py ''Key concepts and fundamentals''),
                 PStr ([8226, 32] @ py ''Practical applications and examples''),
                 PStr ([8226, 32] @ py ''Implementation strategies''),
                 PStr ([8226, 32] @ py ''Best practices and considerations'')])]]"

text \<open>Lines 524 to 541: coercion, the last checkpoint, rendering and the metadata.\<close>

definition render_deck ::
  "world \<Rightarrow> pystr \<Rightarrow> pystr option \<Rightarrow> pystr \<Rightarrow> int \<Rightarrow> int \<Rightarrow> pyval list
     \<Rightarrow> (exn + pystr \<times> metadata) \<times> event list" where
  "render_deck w topic template_path font_name font_size max_slides slides_data =
     (case validate_and_coerce_slides (lib w) slides_data max_slides of
        Inl e \<Rightarrow> (Inl e, [])
      | Inr slides \<Rightarrow>
          if stopped w BeforeRender then (Inl stop_exn, [])
          else
            (case create_presentation w slides template_path font_name font_size of
               (Inl e, tr) \<Rightarrow> (Inl e, tr)
             | (Inr file_path, tr) \<Rightarrow>
                 (Inr (file_path,
                       \<lparr>md_slide_count = length slides,
                        md_topic = topic,
                        md_template_used = template_found w template_path\<rparr>),
                  tr)))"

text \<open>
  Lines 506 to 541: \<^verbatim>\<open>not slides_data\<close> holds for \<^verbatim>\<open>None\<close> and for the empty list.
\<close>

definition after_parse ::
  "world \<Rightarrow> pystr \<Rightarrow> pystr option \<Rightarrow> pystr \<Rightarrow> int \<Rightarrow> int \<Rightarrow> pyval list option
     \<Rightarrow> (exn + pystr \<times> metadata) \<times> event list" where
  "after_parse w topic template_path font_name font_size max_slides slides_data =
     (case slides_data of
        Some (item # rest) \<Rightarrow>
          render_deck w topic template_path font_name font_size max_slides (item # rest)
      | _ \<Rightarrow>
          if stopped w AfterEmptyParse then (Inl stop_exn, [])
          else render_deck w topic template_path font_name font_size max_slides
                 (fallback_slides topic))"

text \<open>Lines 482 and 483: the estimate, clamped to the configured range.\<close>

definition max_slides_for :: "pylib \<Rightarrow> config \<Rightarrow> pystr \<Rightarrow> int" where
  "max_slides_for L config topic =
     (let max_slides = estimate_slide_count_from_keywords L topic
      in max (cfg_min_slides config) (min (cfg_max_slides config) max_slides))"

text \<open>Lines 486 to 491: the prompt, built by \<^verbatim>\<open>str.format\<close> from the template.\<close>

definition build_prompt :: "pylib \<Rightarrow> config \<Rightarrow> pystr \<Rightarrow> exn + pystr" where
  "build_prompt L config topic =
     format L (cfg_adaptive_prompt_template config)
       [(py ''system'', PStr (cfg_system_prompt config)),
        (py ''user_request'', PStr (strip topic)),
        (py ''min_points'', PInt (cfg_min_points config)),
        (py ''max_points'', PInt (cfg_max_points config))]"

text \<open>The body of the \<^verbatim>\<open>try\<close> of \<^verbatim>\<open>generate_presentation\<close>.\<close>

definition generate_try ::
  "world \<Rightarrow> pystr \<Rightarrow> pystr option \<Rightarrow> pystr \<Rightarrow> int \<Rightarrow> (exn + pystr \<times> metadata) \<times> event list" where
  "generate_try w topic template_path font_name font_size =
     (let config = load_config w;
          max_slides = max_slides_for (lib w) config topic
      in case build_prompt (lib w) config topic of
           Inl e \<Rightarrow> (Inl e, [LoadConfig])
         | Inr prompt \<Rightarrow>
             (case ask_ollama w (cfg_ollama_timeout config) prompt (cfg_model config) of
                (Inl e, tr) \<Rightarrow> (Inl e, LoadConfig # tr)
              | (Inr response, tr) \<Rightarrow>
                  if stopped w AfterResponse then (Inl stop_exn, LoadConfig # tr)
                  else
                    (case extract_and_parse_json (lib w) response of
                       Inl e \<Rightarrow> (Inl e, LoadConfig # tr)
                     | Inr slides_data \<Rightarrow>
                         (case after_parse w topic template_path font_name font_size
                                 max_slides slides_data of
                            (r, tr') \<Rightarrow> (r, LoadConfig # tr @ tr')))))"

text \<open>
  \<^verbatim>\<open>generate_presentation\<close>: the two checks before the \<^verbatim>\<open>try\<close>, then the body with its
  two \<^verbatim>\<open>except\<close> clauses. The result is the pair of file path and metadata, or the
  exception that leaves the function, together with the effects of the run.
\<close>

definition generate_presentation ::
  "world \<Rightarrow> pystr \<Rightarrow> pystr option \<Rightarrow> pystr \<Rightarrow> int \<Rightarrow> (exn + pystr \<times> metadata) \<times> event list" where
  "generate_presentation w topic template_path font_name font_size =
     (if strip topic = [] then (Inl (PPTGenerationError (py ''Topic cannot be empty'')), [])
      else if stopped w BeforeStart then (Inl stop_exn, [])
      else
        (case generate_try w topic template_path font_name font_size of
           (Inl (GenerationStopped m), tr) \<Rightarrow> (Inl (GenerationStopped m), tr)
         | (Inl e, tr) \<Rightarrow>
             (Inl (PPTGenerationError (py ''Failed to generate presentation: '' @ exn_str e)), tr)
         | (Inr result, tr) \<Rightarrow> (Inr result, tr)))"

section \<open>Notions of the specification\<close>

text \<open>
  A marker block: an opening tag and, at or after its end, a closing tag.
\<close>

definition has_json_block :: "pystr \<Rightarrow> bool" where
  "has_json_block text \<longleftrightarrow>
     (\<exists>i j. i + length open_tag \<le> j \<and> tag_here open_tag (drop i text)
            \<and> tag_here close_tag (drop j text))"

text \<open>
  The number of opening square brackets of a text minus the number of closing ones.
\<close>

definition bracket_balance :: "pystr \<Rightarrow> int" where
  "bracket_balance s =
     int (count_char s (of_char CHR ''['')) - int (count_char s (of_char CHR '']''))"

text \<open>
  The first opening bracket is absent or never closed: of the text from the first
  \<open>[\<close> on, no non-empty prefix has as many closing brackets as opening ones.
\<close>

definition first_bracket_open :: "pystr \<Rightarrow> bool" where
  "first_bracket_open text \<longleftrightarrow>
     (\<forall>n. 0 < n \<and> n \<le> length (dropWhile (\<lambda>c. c \<noteq> of_char CHR ''['') text) \<longrightarrow>
          bracket_balance (take n (dropWhile (\<lambda>c. c \<noteq> of_char CHR ''['') text)) \<noteq> 0)"

text \<open>
  The square brackets of a text are balanced: every closing bracket closes an open
  one, and none stays open.
\<close>

fun balanced_from :: "int \<Rightarrow> pystr \<Rightarrow> bool" where
  "balanced_from d [] = (d = 0)"
| "balanced_from d (c # cs) =
     (if c = of_char CHR ''['' then balanced_from (d + 1) cs
      else if c = of_char CHR '']'' then 0 < d \<and> balanced_from (d - 1) cs
      else balanced_from d cs)"

definition balanced :: "pystr \<Rightarrow> bool" where
  "balanced text = balanced_from 0 text"

text \<open>The records among the items of a parsed list, in order.\<close>

fun records :: "pyval list \<Rightarrow> (pystr \<times> pyval) list list" where
  "records [] = []"
| "records (PDict d # rest) = d # records rest"
| "records (item # rest) = records rest"

text \<open>
  The title of the slide made from a record: the placeholder when the record has no
  title, the title itself when it is a string, otherwise what \<^verbatim>\<open>str()\<close> gives for it,
  which is a text or an exception.
\<close>

definition title_of_record :: "pylib \<Rightarrow> (pystr \<times> pyval) list \<Rightarrow> exn + pystr" where
  "title_of_record L d =
     (case map_of d (py ''title'') of
        None \<Rightarrow> Inr (py ''Untitled Slide'')
      | Some (PStr s) \<Rightarrow> Inr s
      | Some v \<Rightarrow> str_of L v)"

text \<open>
  The results of a sequence of steps taken in order: the first exception, or all the
  values when no step raises.
\<close>

fun collect :: "('e + 'a) list \<Rightarrow> 'e + 'a list" where
  "collect [] = Inr []"
| "collect (Inl e # rest) = Inl e"
| "collect (Inr x # rest) = (case collect rest of Inl e \<Rightarrow> Inl e | Inr xs \<Rightarrow> Inr (x # xs))"

text \<open>
  The points of the slide made from a record: the string entries of its list of
  points that are not blank, each trimmed; no points when the field is absent or not
  a list.
\<close>

definition points_of_record :: "(pystr \<times> pyval) list \<Rightarrow> pystr list" where
  "points_of_record d =
     (case map_of d (py ''points'') of
        Some (PList ps) \<Rightarrow> [strip s. PStr s \<leftarrow> ps, strip s \<noteq> []]
      | _ \<Rightarrow> [])"

text \<open>
  The fallback deck: a title slide that echoes the trimmed topic and has no points,
  and the slide \<open>Overview\<close> with its four points.
\<close>

definition fallback_deck :: "pystr \<Rightarrow> slide list" where
  "fallback_deck topic =
     [\<lparr>title = strip topic, points = []\<rparr>,
      \<lparr>title = py ''Overview'',
       points = [[8226, 32] @ py ''Key concepts and fundamentals'',
                 [8226, 32] @ py ''Practical applications and examples'',
                 [8226, 32] @ py ''Implementation strategies'',
                 [8226, 32] @ py ''Best practices and considerations'']\<rparr>]"

section \<open>An environment for the examples\<close>

text \<open>
  A library for the examples of this theory, whose texts are ASCII: \<^verbatim>\<open>str.lower\<close> moves
  \<open>A\<close>..\<open>Z\<close> to \<open>a\<close>..\<open>z\<close>; both parsers read the text \<^verbatim>\<open>[1]\<close> as the list of the
  integer 1 and are taken to raise on any other text; \<^verbatim>\<open>str()\<close> is given on \<^verbatim>\<open>None\<close>,
  booleans and integers, where it raises on an integer of more than 4300 digits as
  CPython 3.11 does; \<^verbatim>\<open>str.format\<close> returns a template that has no braces, and on
  a template with a brace it is taken to raise the \<^verbatim>\<open>KeyError\<close> of the template
  \<^verbatim>\<open>{topic}\<close>, whose text is \<^verbatim>\<open>'topic'\<close>.
\<close>

definition ascii_lower :: "pystr \<Rightarrow> pystr" where
  "ascii_lower s = map (\<lambda>c. if 65 \<le> c \<and> c \<le> 90 then c + 32 else c) s"

definition demo_parser :: "pystr \<Rightarrow> exn + pyval" where
  "demo_parser s =
     (if s = py ''[1]'' then Inr (PList [PInt 1]) else Inl (OtherException (py ''invalid syntax'')))"

fun demo_str_of :: "pyval \<Rightarrow> exn + pystr" where
  "demo_str_of PNone = Inr (py ''None'')"
| "demo_str_of (PBool b) = Inr (if b then py ''True'' else py ''False'')"
| "demo_str_of (PInt i) =
     (if 4300 < length (digits (nat \<bar>i\<bar>))
      then Inl (OtherException
                 (py ''Exceeds the limit (4300 digits) for integer string conversion; use sys.set_int_max_str_digits() to increase the limit''))
      else Inr (str_int i))"
| "demo_str_of (PStr s) = Inr s"
| "demo_str_of (POther s) = Inr s"
| "demo_str_of (PList xs) = Inr (py ''[...]'')"
| "demo_str_of (PDict d) = Inr (py ''{...}'')"

definition demo_format :: "pystr \<Rightarrow> (pystr \<times> pyval) list \<Rightarrow> exn + pystr" where
  "demo_format template args =
     (if of_char CHR ''{'' \<in> set template \<or> of_char CHR ''}'' \<in> set template
      then Inl (OtherException ([39] @ py ''topic'' @ [39]))
      else Inr template)"

definition demo_lib :: pylib where
  "demo_lib = \<lparr>lower = ascii_lower, json_loads = demo_parser, literal_eval = demo_parser,
               str_of = demo_str_of, format = demo_format\<rparr>"

text \<open>
  A world for the examples: no stop event, a configuration with the default numbers,
  a model that answers in plain prose with return code 0, and a presentation library
  that saves the file.
\<close>

definition demo_config :: config where
  "demo_config = \<lparr>cfg_system_prompt = py ''You are a slide generator.'',
                  cfg_adaptive_prompt_template = py ''Write slides.'',
                  cfg_min_points = 4, cfg_max_points = 12, cfg_max_slides = 20,
                  cfg_min_slides = 3, cfg_model = py ''qwen3'', cfg_ollama_timeout = 120\<rparr>"

definition demo_world :: world where
  "demo_world = \<lparr>lib = demo_lib, stop_event = None, load_config = demo_config,
                 ollama = (\<lambda>model_name prompt timeout. Exited 0 (py ''Sorry, no outline today.'') []),
                 pptx = (\<lambda>contents template font_name font_size. Inr (py ''/tmp/tmp1.pptx'')),
                 path_exists = (\<lambda>p. False)\<rparr>"

text \<open>The token is set before the run starts.\<close>

definition stop_world :: world where
  "stop_world = demo_world\<lparr>stop_event := Some (\<lambda>cp. True)\<rparr>"

text \<open>The token is set after line 474 and before \<^verbatim>\<open>ask_ollama\<close> begins.\<close>

definition late_stop_world :: world where
  "late_stop_world = demo_world\<lparr>stop_event := Some (\<lambda>cp. cp \<noteq> BeforeStart)\<rparr>"

text \<open>
  The token is set while the model runs, and the process, terminated, exits with the
  return code -15.
\<close>

definition killed_world :: world where
  "killed_world =
     demo_world\<lparr>stop_event := Some (\<lambda>cp. cp \<noteq> BeforeStart \<and> cp \<noteq> AskEntry),
                ollama := (\<lambda>model_name prompt timeout. Exited (- 15) [] [])\<rparr>"

text \<open>The configured template has a slot that the code does not fill.\<close>

definition bad_template_world :: world where
  "bad_template_world =
     demo_world\<lparr>load_config := demo_config\<lparr>cfg_adaptive_prompt_template := py ''{topic}''\<rparr>\<rparr>"

section \<open>Properties of the slide-count heuristic\<close>

lemma py_in_sublist: "py_in w s \<longleftrightarrow> sublist w s"
  by (induction s) (simp_all add: sublist_Cons_right)

lemma occurrences_pos: "0 < occurrences w s \<longleftrightarrow> py_in w s"
  by (induction s) auto

lemma sum_list_weight:
  "sum_list (concat (map (\<lambda>x. if P x then [k] else []) xs)) = (k :: rat) * of_nat (length (filter P xs))"
  by (induction xs) (simp_all add: algebra_simps)

lemma length_filter_card: "distinct xs \<Longrightarrow> length (filter P xs) = card {x \<in> set xs. P x}"
  by (metis distinct_filter distinct_card set_filter)

lemma distinct_tables: "distinct broad" "distinct process" "distinct training"
  by (simp_all add: broad_def process_def training_def)

lemma estimate_formula:
  "estimate_slide_count_from_keywords L t =
     max 3 (min 18 \<lfloor>2 * rat_of_nat (length (filter (\<lambda>w. py_in w (lower L t)) broad))
                     + 3 / 2 * rat_of_nat (length (filter (\<lambda>w. py_in w (lower L t)) process))
                     + 2 * rat_of_nat (length (filter (\<lambda>w. py_in w (lower L t)) training))
                     + rat_of_nat (count_char (lower L t) (of_char CHR '','')) * (1 / 2)
                     + rat_of_nat (length (split t) div 25) + 5\<rfloor>)"
  unfolding estimate_slide_count_from_keywords_def Let_def sum_list_weight by simp

text \<open>The topic \<open>overview overview\<close>: one keyword, twice.\<close>

lemma lower_overview_twice:
  "lower demo_lib (py ''overview overview'') = py ''overview overview''"
  by (simp add: demo_lib_def ascii_lower_def)

lemma words_overview_twice: "length (split (py ''overview overview'')) = 2"
  by (simp add: split_def isspace_def)

lemma commas_overview_twice: "count_char (py ''overview overview'') (of_char CHR '','') = 0"
  by (simp add: count_char_def)

lemma estimate_overview_twice:
  "estimate_slide_count_from_keywords demo_lib (py ''overview overview'') = 7"
proof -
  have b: "filter (\<lambda>w. py_in w (py ''overview overview'')) broad = [py ''overview'']"
    by (simp add: broad_def)
  have p: "filter (\<lambda>w. py_in w (py ''overview overview'')) process = []"
    by (simp add: process_def)
  have t: "filter (\<lambda>w. py_in w (py ''overview overview'')) training = []"
    by (simp add: training_def)
  show ?thesis
    unfolding estimate_formula lower_overview_twice words_overview_twice commas_overview_twice b p t
    by simp
qed

lemma spec_overview_twice:
  "spec_slide_count demo_lib (py ''overview overview'') = 9"
proof -
  have b: "map (\<lambda>w. occurrences w (py ''overview overview'')) broad = [2, 0, 0, 0, 0, 0]"
    by (simp add: broad_def)
  have p: "map (\<lambda>w. occurrences w (py ''overview overview'')) process = [0, 0, 0, 0, 0]"
    by (simp add: process_def)
  have t: "map (\<lambda>w. occurrences w (py ''overview overview'')) training = [0, 0, 0, 0, 0]"
    by (simp add: training_def)
  show ?thesis
    unfolding spec_slide_count_def Let_def lower_overview_twice words_overview_twice
      commas_overview_twice b p t
    by simp
qed

text \<open>
  Claim C6, as stated, fails: for the topic \<open>overview overview\<close> the keyword occurs
  twice, the specification's count gives 5 + 2 + 2 = 9, and the code gives 7, because
  \<^verbatim>\<open>sum(2 for word in ... if word in text)\<close> adds the weight of a keyword once when the
  keyword is present.
\<close>

theorem estimate_not_per_occurrence:
  "estimate_slide_count_from_keywords demo_lib (py ''overview overview'') = 7
   \<and> spec_slide_count demo_lib (py ''overview overview'') = 9"
  using estimate_overview_twice spec_overview_twice by simp

text \<open>
  Claim C6, amended: the result is the floor of 5, plus 2 for each broad-scope keyword
  that occurs in the lower-cased topic, plus 1.5 for each process keyword that occurs
  in it, plus 2 for each training keyword that occurs in it, plus 0.5 per comma of the
  lower-cased topic, plus the number of words of the topic divided by 25 and rounded
  down; clamped to the range from 3 to 18. A keyword counts once however often it
  occurs.
\<close>

theorem estimate_counts_keywords_present:
  "estimate_slide_count_from_keywords L t =
     max 3 (min 18 \<lfloor>5 + 2 * rat_of_nat (card {w \<in> set broad. sublist w (lower L t)})
                     + 3 / 2 * rat_of_nat (card {w \<in> set process. sublist w (lower L t)})
                     + 2 * rat_of_nat (card {w \<in> set training. sublist w (lower L t)})
                     + 1 / 2 * rat_of_nat (count_char (lower L t) (of_char CHR '',''))
                     + rat_of_nat (length (split t) div 25)\<rfloor>)"
  unfolding estimate_formula
  by (simp add: length_filter_card distinct_tables py_in_sublist algebra_simps)

theorem estimate_counts_keywords_present_witness:
  "(7 :: int) =
     max 3 (min 18 \<lfloor>5 + 2 * rat_of_nat (card {w \<in> set broad. sublist w (py ''overview overview'')})
                     + 3 / 2 * rat_of_nat (card {w \<in> set process. sublist w (py ''overview overview'')})
                     + 2 * rat_of_nat (card {w \<in> set training. sublist w (py ''overview overview'')})
                     + 1 / 2 * rat_of_nat 0
                     + rat_of_nat (2 div 25)\<rfloor>)"
  using estimate_counts_keywords_present [of demo_lib "py ''overview overview''"]
  unfolding estimate_overview_twice lower_overview_twice words_overview_twice commas_overview_twice
  by simp

text \<open>
  Claim C7: when two topics have the same occurrences of every keyword and the same
  number of commas, the topic with no more words gets no larger a result; and the
  result of every topic lies between 3 and 18.
\<close>

theorem estimate_monotone_and_bounded:
  assumes "\<forall>w \<in> set (broad @ process @ training).
             occurrences w (lower L t1) = occurrences w (lower L t2)"
    and "count_char (lower L t1) (of_char CHR '','') = count_char (lower L t2) (of_char CHR '','')"
    and "length (split t1) \<le> length (split t2)"
  shows "estimate_slide_count_from_keywords L t1 \<le> estimate_slide_count_from_keywords L t2
         \<and> 3 \<le> estimate_slide_count_from_keywords L t \<and> estimate_slide_count_from_keywords L t \<le> 18"
proof -
  have same: "py_in w (lower L t1) \<longleftrightarrow> py_in w (lower L t2)"
    if "w \<in> set (broad @ process @ training)" for w
    using assms(1) that by (metis occurrences_pos)
  have fb: "filter (\<lambda>w. py_in w (lower L t1)) broad = filter (\<lambda>w. py_in w (lower L t2)) broad"
    by (rule filter_cong) (simp_all add: same)
  have fp: "filter (\<lambda>w. py_in w (lower L t1)) process = filter (\<lambda>w. py_in w (lower L t2)) process"
    by (rule filter_cong) (simp_all add: same)
  have ft: "filter (\<lambda>w. py_in w (lower L t1)) training = filter (\<lambda>w. py_in w (lower L t2)) training"
    by (rule filter_cong) (simp_all add: same)
  have words: "rat_of_nat (length (split t1) div 25) \<le> rat_of_nat (length (split t2) div 25)"
    using assms(3) by (simp add: div_le_mono)
  have mono: "estimate_slide_count_from_keywords L t1 \<le> estimate_slide_count_from_keywords L t2"
    unfolding estimate_formula fb fp ft assms(2)
    using words by (intro max.mono min.mono floor_mono order_refl add_mono)
  have "3 \<le> estimate_slide_count_from_keywords L t \<and> estimate_slide_count_from_keywords L t \<le> 18"
    unfolding estimate_formula by simp
  with mono show ?thesis by simp
qed

theorem estimate_monotone_and_bounded_witness:
  "estimate_slide_count_from_keywords demo_lib (py ''go'')
     \<le> estimate_slide_count_from_keywords demo_lib
          (py ''go go go go go go go go go go go go go go go go go go go go go go go go go'')
   \<and> 3 \<le> estimate_slide_count_from_keywords demo_lib (py ''go'')
   \<and> estimate_slide_count_from_keywords demo_lib (py ''go'') \<le> 18"
proof -
  let ?t1 = "py ''go''"
  let ?t2 = "py ''go go go go go go go go go go go go go go go go go go go go go go go go go''"
  have l1: "lower demo_lib ?t1 = ?t1"
    by (simp add: demo_lib_def ascii_lower_def)
  have l2: "lower demo_lib ?t2 = ?t2"
    by (simp add: demo_lib_def ascii_lower_def)
  have o1: "\<forall>w \<in> set (broad @ process @ training). occurrences w ?t1 = 0"
    by (simp add: broad_def process_def training_def)
  have o2: "\<forall>w \<in> set (broad @ process @ training). occurrences w ?t2 = 0"
    by (simp add: broad_def process_def training_def)
  have h1: "\<forall>w \<in> set (broad @ process @ training).
              occurrences w (lower demo_lib ?t1) = occurrences w (lower demo_lib ?t2)"
    unfolding l1 l2 using o1 o2 by simp
  have h2: "count_char (lower demo_lib ?t1) (of_char CHR '','')
            = count_char (lower demo_lib ?t2) (of_char CHR '','')"
    unfolding l1 l2 by (simp add: count_char_def)
  have w1: "length (split ?t1) = 1"
    by (simp add: split_def isspace_def)
  have w2: "length (split ?t2) = 25"
    by (simp add: split_def isspace_def)
  have h3: "length (split ?t1) \<le> length (split ?t2)"
    unfolding w1 w2 by simp
  show ?thesis
    using estimate_monotone_and_bounded [OF h1 h2 h3, of ?t1] by simp
qed

section \<open>Properties of the outline extractor\<close>

lemma parse_attempts_Inr: "\<exists>r. parse_attempts ps s = Inr r"
  by (induction ps) (auto split: sum.splits pyval.splits)

lemma tag_here_Nil: "pat \<noteq> [] \<Longrightarrow> \<not> tag_here pat []"
  by (cases pat) simp_all

lemma find_tag_None: "pat \<noteq> [] \<Longrightarrow> find_tag pat s = None \<longleftrightarrow> (\<forall>i. \<not> tag_here pat (drop i s))"
proof (induction s)
  case Nil
  then show ?case by (simp add: tag_here_Nil)
next
  case (Cons c cs)
  show ?case
  proof
    assume a: "find_tag pat (c # cs) = None"
    then have n0: "\<not> tag_here pat (c # cs)" and "find_tag pat cs = None"
      by (auto split: if_splits)
    with Cons have rest: "\<forall>i. \<not> tag_here pat (drop i cs)" by simp
    show "\<forall>i. \<not> tag_here pat (drop i (c # cs))"
    proof
      fix i show "\<not> tag_here pat (drop i (c # cs))"
        using n0 rest by (cases i) simp_all
    qed
  next
    assume a: "\<forall>i. \<not> tag_here pat (drop i (c # cs))"
    then have "\<not> tag_here pat (drop 0 (c # cs))" by blast
    moreover have "\<forall>i. \<not> tag_here pat (drop i cs)"
      using a by (metis drop_Suc_Cons)
    ultimately show "find_tag pat (c # cs) = None"
      using Cons by simp
  qed
qed

lemma find_tag_Some:
  "find_tag pat s = Some i \<Longrightarrow> tag_here pat (drop i s) \<and> (\<forall>k<i. \<not> tag_here pat (drop k s))"
proof (induction s arbitrary: i)
  case Nil
  then show ?case by simp
next
  case (Cons c cs)
  show ?case
  proof (cases "tag_here pat (c # cs)")
    case True
    with Cons.prems show ?thesis by simp
  next
    case False
    with Cons.prems obtain i' where i': "find_tag pat cs = Some i'" "i = Suc i'"
      by auto
    from Cons.IH[OF i'(1)] have ih: "tag_here pat (drop i' cs)" "\<forall>k<i'. \<not> tag_here pat (drop k cs)"
      by simp_all
    have "\<not> tag_here pat (drop k (c # cs))" if "k < i" for k
      using that False ih(2) i'(2) by (cases k) simp_all
    with ih(1) i'(2) show ?thesis by simp
  qed
qed

lemma json_match_None: "json_match text = None \<longleftrightarrow> \<not> has_json_block text"
proof
  assume a: "json_match text = None"
  show "\<not> has_json_block text"
  proof
    assume "has_json_block text"
    then obtain i j where ij: "i + length open_tag \<le> j" "tag_here open_tag (drop i text)"
      "tag_here close_tag (drop j text)"
      by (auto simp: has_json_block_def)
    have "find_tag open_tag text \<noteq> None"
      using ij(2) find_tag_None[of open_tag "text"] by (auto simp: open_tag_def)
    then obtain i0 where i0: "find_tag open_tag text = Some i0" by auto
    have "i0 \<le> i"
      using find_tag_Some[OF i0] ij(2) by (meson not_le)
    then have "j = (j - (i0 + length open_tag)) + (i0 + length open_tag)"
      using ij(1) by simp
    then have "tag_here close_tag (drop (j - (i0 + length open_tag)) (drop (i0 + length open_tag) text))"
      using ij(3) by (metis drop_drop)
    then have "find_tag close_tag (drop (i0 + length open_tag) text) \<noteq> None"
      using find_tag_None[of close_tag "drop (i0 + length open_tag) text"]
      by (auto simp: close_tag_def)
    with a i0 show False
      by (auto simp: json_match_def Let_def split: option.splits)
  qed
next
  assume a: "\<not> has_json_block text"
  show "json_match text = None"
  proof (rule ccontr)
    assume "json_match text \<noteq> None"
    then obtain i j where i: "find_tag open_tag text = Some i"
      and j: "find_tag close_tag (drop (i + length open_tag) text) = Some j"
      by (auto simp: json_match_def Let_def split: option.splits)
    have "tag_here open_tag (drop i text)" using find_tag_Some[OF i] by simp
    moreover have "tag_here close_tag (drop (j + (i + length open_tag)) text)"
      using find_tag_Some[OF j] by (simp add: add.commute)
    ultimately have "has_json_block text"
      unfolding has_json_block_def
      by (intro exI[of _ i] exI[of _ "j + (i + length open_tag)"]) simp
    with a show False by simp
  qed
qed

lemma bracket_balance_Nil: "bracket_balance [] = 0"
  by (simp add: bracket_balance_def count_char_def)

lemma bracket_balance_Cons:
  "bracket_balance (c # cs) =
     (if c = of_char CHR ''['' then 1 else if c = of_char CHR '']'' then - 1 else 0)
     + bracket_balance cs"
  by (simp add: bracket_balance_def count_char_def)

lemma all_prefixes_Cons:
  "(\<forall>k. 0 < k \<and> k \<le> length (c # cs) \<longrightarrow> P (take k (c # cs))) \<longleftrightarrow>
   P [c] \<and> (\<forall>k. 0 < k \<and> k \<le> length cs \<longrightarrow> P (c # take k cs))"
proof
  assume a: "\<forall>k. 0 < k \<and> k \<le> length (c # cs) \<longrightarrow> P (take k (c # cs))"
  have "P (take 1 (c # cs))" using a by (metis One_nat_def length_Cons zero_less_Suc le0 Suc_le_mono)
  moreover have "P (c # take k cs)" if "0 < k" "k \<le> length cs" for k
    using a[rule_format, of "Suc k"] that by simp
  ultimately show "P [c] \<and> (\<forall>k. 0 < k \<and> k \<le> length cs \<longrightarrow> P (c # take k cs))"
    by simp
next
  assume a: "P [c] \<and> (\<forall>k. 0 < k \<and> k \<le> length cs \<longrightarrow> P (c # take k cs))"
  show "\<forall>k. 0 < k \<and> k \<le> length (c # cs) \<longrightarrow> P (take k (c # cs))"
  proof (intro allI impI)
    fix k assume k: "0 < k \<and> k \<le> length (c # cs)"
    then obtain k' where k': "k = Suc k'" by (cases k) auto
    show "P (take k (c # cs))"
    proof (cases k')
      case 0
      with k' a show ?thesis by simp
    next
      case (Suc m)
      with k k' a show ?thesis by simp
    qed
  qed
qed

lemma scan_None:
  "1 \<le> d \<Longrightarrow>
   scan d cs n = None \<longleftrightarrow>
     (\<forall>k. 0 < k \<and> k \<le> length cs \<longrightarrow> d + bracket_balance (take k cs) \<noteq> 0)"
proof (induction cs arbitrary: d n)
  case Nil
  then show ?case by auto
next
  case (Cons c cs)
  have split_all: "(\<forall>k. 0 < k \<and> k \<le> length (c # cs) \<longrightarrow> d + bracket_balance (take k (c # cs)) \<noteq> 0)
      \<longleftrightarrow> d + bracket_balance [c] \<noteq> 0
          \<and> (\<forall>k. 0 < k \<and> k \<le> length cs \<longrightarrow> d + bracket_balance (c # take k cs) \<noteq> 0)"
    by (rule all_prefixes_Cons[where P = "\<lambda>xs. d + bracket_balance xs \<noteq> 0"])
  consider (lb) "c = of_char CHR ''[''" | (rb) "c = of_char CHR '']''"
    | (other) "c \<noteq> of_char CHR ''[''" "c \<noteq> of_char CHR '']''"
    by blast
  then show ?case
  proof cases
    case lb
    have "1 \<le> d + 1" using Cons.prems by simp
    from Cons.IH[OF this, of "n + 1"] show ?thesis
      unfolding split_all using lb Cons.prems
      by (simp add: bracket_balance_Cons bracket_balance_Nil add.assoc)
  next
    case rb
    show ?thesis
    proof (cases "d - 1 = 0")
      case True
      then show ?thesis
        unfolding split_all using rb by (simp add: bracket_balance_Cons bracket_balance_Nil)
    next
      case False
      then have d1: "1 \<le> d - 1" using Cons.prems by simp
      have eq: "d + (x - 1) = d - 1 + x" for x :: int
        by simp
      show ?thesis
        unfolding split_all using rb False Cons.IH[OF d1, of "n + 1"]
        by (simp add: bracket_balance_Cons bracket_balance_Nil eq)
    qed
  next
    case other
    from Cons.IH[OF Cons.prems, of "n + 1"] show ?thesis
      unfolding split_all using other Cons.prems
      by (simp add: bracket_balance_Cons bracket_balance_Nil)
  qed
qed

lemma find_char_None: "find_char x s = None \<longleftrightarrow> x \<notin> set s"
  by (induction s) auto

lemma find_char_Some:
  "find_char x s = Some i \<Longrightarrow> drop i s = dropWhile (\<lambda>c. c \<noteq> x) s \<and> dropWhile (\<lambda>c. c \<noteq> x) s \<noteq> []
     \<and> hd (dropWhile (\<lambda>c. c \<noteq> x) s) = x"
  by (induction s arbitrary: i) (auto split: if_splits)

lemma first_array_None: "first_array text = None \<longleftrightarrow> first_bracket_open text"
proof (cases "find_char (of_char CHR ''['') text")
  case None
  then have dw: "dropWhile (\<lambda>c. c \<noteq> of_char CHR ''['') text = []"
    by (auto simp: find_char_None)
  show ?thesis
    unfolding first_bracket_open_def dw using None by (auto simp: first_array_def)
next
  case (Some start)
  from find_char_Some[OF Some] obtain rest where
    d: "drop start text = dropWhile (\<lambda>c. c \<noteq> of_char CHR ''['') text"
    and r: "dropWhile (\<lambda>c. c \<noteq> of_char CHR ''['') text = of_char CHR ''['' # rest"
    by (metis list.collapse)
  have fa: "first_array text = None \<longleftrightarrow> scan 1 rest 1 = None"
    using Some d r by (simp add: first_array_def split: option.splits)
  have sc: "scan 1 rest 1 = None \<longleftrightarrow>
      (\<forall>k. 0 < k \<and> k \<le> length rest \<longrightarrow> 1 + bracket_balance (take k rest) \<noteq> 0)"
    by (rule scan_None) simp
  have fb: "first_bracket_open text \<longleftrightarrow>
      (\<forall>k. 0 < k \<and> k \<le> length rest \<longrightarrow> 1 + bracket_balance (take k rest) \<noteq> 0)"
    unfolding first_bracket_open_def r
    by (subst all_prefixes_Cons) (simp add: bracket_balance_Cons bracket_balance_Nil)
  show ?thesis
    unfolding fa sc fb ..
qed

text \<open>
  Claim C2, as stated, fails: the text \<open>[1]]\<close> has no marker block and its square
  brackets are not balanced, and the extractor returns the one-element list it finds
  from the first opening bracket to the bracket that closes it.
\<close>

theorem extract_unbalanced_counterexample:
  "\<not> balanced (py ''[1]]'') \<and> \<not> has_json_block (py ''[1]]'')
   \<and> extract_and_parse_json demo_lib (py ''[1]]'') = Inr (Some [PInt 1])"
proof -
  have m: "json_match (py ''[1]]'') = None"
    by (simp add: json_match_def open_tag_def)
  have a: "first_array (py ''[1]]'') = Some (py ''[1]'')"
    by (simp add: first_array_def strip_def isspace_def)
  have c: "clean (py ''[1]'') = py ''[1]''"
    by (simp add: clean_def replace_def)
  have p: "json_loads demo_lib (py ''[1]'') = Inr (PList [PInt 1])"
    by (simp add: demo_lib_def demo_parser_def)
  have "extract_and_parse_json demo_lib (py ''[1]]'') = Inr (Some [PInt 1])"
    unfolding extract_and_parse_json_def m a using c p by simp
  moreover have "\<not> balanced (py ''[1]]'')"
    by (simp add: balanced_def)
  moreover have "\<not> has_json_block (py ''[1]]'')"
    using m by (simp add: json_match_None)
  ultimately show ?thesis by simp
qed

text \<open>
  Claim C2, amended: for every input string the extractor returns without raising,
  whatever the two parsers do; and for every input that has no marker block and whose
  first opening square bracket is absent or never closed, it returns the empty
  result. (An input whose first opening bracket is closed is handed to the parsers
  even when its brackets are unbalanced as a whole.)
\<close>

theorem extract_never_raises:
  "(\<exists>r. extract_and_parse_json L text = Inr r)
   \<and> (\<not> has_json_block text \<and> first_bracket_open text
        \<longrightarrow> extract_and_parse_json L text = Inr None)"
proof
  show "\<exists>r. extract_and_parse_json L text = Inr r"
    using parse_attempts_Inr [of "[json_loads L, literal_eval L]"]
    by (auto simp: extract_and_parse_json_def split: option.splits)
next
  show "\<not> has_json_block text \<and> first_bracket_open text
        \<longrightarrow> extract_and_parse_json L text = Inr None"
  proof
    assume "\<not> has_json_block text \<and> first_bracket_open text"
    then have "json_match text = None" "first_array text = None"
      by (simp_all add: json_match_None first_array_None)
    then show "extract_and_parse_json L text = Inr None"
      by (simp add: extract_and_parse_json_def)
  qed
qed

theorem extract_never_raises_witness:
  "\<not> has_json_block (py ''See [the [first] list'') \<and> first_bracket_open (py ''See [the [first] list'')
   \<and> extract_and_parse_json demo_lib (py ''See [the [first] list'') = Inr None"
proof -
  have m: "json_match (py ''See [the [first] list'') = None"
    by (simp add: json_match_def open_tag_def)
  have a: "first_array (py ''See [the [first] list'') = None"
    by (simp add: first_array_def)
  have h: "\<not> has_json_block (py ''See [the [first] list'') \<and> first_bracket_open (py ''See [the [first] list'')"
    using m a by (simp add: json_match_None first_array_None)
  with extract_never_raises [of demo_lib "py ''See [the [first] list''"] show ?thesis
    by simp
qed

section \<open>Properties of trimming\<close>

lemma strip_Nil_iff: "strip s = [] \<longleftrightarrow> (\<forall>c \<in> set s. isspace c)"
proof -
  have "dropWhile isspace (rev (dropWhile isspace s)) = [] \<longleftrightarrow> dropWhile isspace s = []"
  proof
    assume a: "dropWhile isspace (rev (dropWhile isspace s)) = []"
    show "dropWhile isspace s = []"
    proof (rule ccontr)
      assume n: "dropWhile isspace s \<noteq> []"
      then have "\<not> isspace (hd (dropWhile isspace s))"
        by (rule hd_dropWhile)
      moreover have "hd (dropWhile isspace s) \<in> set (rev (dropWhile isspace s))"
        using n by simp
      ultimately show False
        using a by (simp only: dropWhile_eq_Nil_conv) blast
    qed
  qed (simp del: dropWhile_eq_Nil_conv)
  then show ?thesis
    by (simp add: strip_def)
qed

lemma rev_dropWhile_rev_prefix: "prefix (rev (dropWhile P (rev t))) t"
proof -
  have "rev t = takeWhile P (rev t) @ dropWhile P (rev t)"
    by simp
  then have "t = rev (dropWhile P (rev t)) @ rev (takeWhile P (rev t))"
    by (metis rev_append rev_rev_ident)
  then show ?thesis
    by (metis prefixI)
qed

lemma strip_idem: "strip (strip s) = strip s"
proof (cases "strip s = []")
  case True
  show ?thesis unfolding True by (simp add: strip_def)
next
  case False
  define t where "t = dropWhile isspace s"
  define u where "u = rev (dropWhile isspace (rev t))"
  have u: "strip s = u" by (simp add: strip_def u_def t_def)
  have un: "u \<noteq> []" using False u by simp
  then have tn: "t \<noteq> []" by (auto simp: u_def)
  then have "\<not> isspace (hd t)" unfolding t_def by (rule hd_dropWhile)
  moreover have "prefix u t" unfolding u_def by (rule rev_dropWhile_rev_prefix)
  then have "hd u = hd t" using un by (auto simp: prefix_def)
  ultimately have d1: "dropWhile isspace u = u"
    by (simp add: dropWhile_eq_self_iff)
  have ru: "rev u = dropWhile isspace (rev t)" by (simp add: u_def)
  have "rev u \<noteq> []" using un by simp
  then have "\<not> isspace (hd (rev u))"
    unfolding ru by (rule hd_dropWhile)
  then have d2: "dropWhile isspace (rev u) = rev u"
    by (simp add: dropWhile_eq_self_iff)
  show ?thesis
    unfolding u by (simp add: strip_def d1 d2)
qed

section \<open>Properties of the slide coercion\<close>

lemma clean_points_eq: "clean_points ps = [strip s. PStr s \<leftarrow> ps, strip s \<noteq> []]"
  by (induction ps rule: clean_points.induct) simp_all

lemma clean_points_trimmed: "p \<in> set (clean_points ps) \<Longrightarrow> p \<noteq> [] \<and> strip p = p"
  by (induction ps rule: clean_points.induct) (auto simp: strip_idem split: if_splits)

lemma coerce_title:
  "py_str L (dict_get item (py ''title'') (PStr (py ''Untitled Slide''))) = title_of_record L item"
  by (simp add: py_str_def dict_get_def title_of_record_def split: option.splits pyval.splits)

lemma coerce_points:
  "clean_points (case dict_get item (py ''points'') (PList []) of PList ps \<Rightarrow> ps | _ \<Rightarrow> [])
   = points_of_record item"
  by (simp add: dict_get_def points_of_record_def clean_points_eq split: option.splits pyval.splits)

text \<open>One step of the outer loop on a record, in terms of the two notions.\<close>

lemma coerce_items_PDict:
  "coerce_items L (PDict item # rest) =
     (case title_of_record L item of
        Inl e \<Rightarrow> Inl e
      | Inr t \<Rightarrow>
          (case coerce_items L rest of
             Inl e \<Rightarrow> Inl e
           | Inr slides \<Rightarrow> Inr (\<lparr>title = t, points = points_of_record item\<rparr> # slides)))"
  unfolding coerce_items.simps Let_def coerce_title coerce_points ..

lemma coerce_items_other:
  "\<not> (\<exists>item. x = PDict item) \<Longrightarrow> coerce_items L (x # rest) = coerce_items L rest"
  by (cases x) auto

lemma records_other:
  "\<not> (\<exists>item. x = PDict item) \<Longrightarrow> records (x # rest) = records rest"
  by (cases x) auto

lemma coerce_items_titles:
  "map_sum id (map title) (coerce_items L data) = collect (map (title_of_record L) (records data))"
proof (induction data)
  case Nil
  show ?case by simp
next
  case (Cons x rest)
  show ?case
  proof (cases "\<exists>item. x = PDict item")
    case True
    then obtain item where x: "x = PDict item" by blast
    show ?thesis
      unfolding x coerce_items_PDict using Cons.IH [symmetric]
      by (cases "title_of_record L item"; cases "coerce_items L rest") auto
  next
    case False
    with Cons show ?thesis
      by (simp add: coerce_items_other records_other)
  qed
qed

lemma coerce_items_Inr:
  "coerce_items L data = Inr slides \<Longrightarrow>
   map points slides = map points_of_record (records data)
   \<and> (\<forall>s \<in> set slides. \<forall>p \<in> set (points s). p \<noteq> [] \<and> strip p = p)"
proof (induction data arbitrary: slides)
  case Nil
  then show ?case by simp
next
  case (Cons x rest)
  show ?case
  proof (cases "\<exists>item. x = PDict item")
    case True
    then obtain item where x: "x = PDict item" by blast
    from Cons.prems obtain t slides' where
      r: "coerce_items L rest = Inr slides'"
      and sl: "slides = \<lparr>title = t, points = points_of_record item\<rparr> # slides'"
      unfolding x coerce_items_PDict by (auto split: sum.splits)
    have "p \<noteq> [] \<and> strip p = p" if "p \<in> set (points_of_record item)" for p
    proof -
      from that have "p \<in> set (clean_points
          (case dict_get item (py ''points'') (PList []) of PList ps \<Rightarrow> ps | _ \<Rightarrow> []))"
        by (simp only: coerce_points)
      then show ?thesis by (rule clean_points_trimmed)
    qed
    with Cons.IH [OF r] show ?thesis
      unfolding sl x by simp
  next
    case False
    with Cons show ?thesis
      by (simp add: coerce_items_other records_other)
  qed
qed

lemma coerce_items_Inl:
  "coerce_items L data = Inl e \<Longrightarrow> \<exists>d \<in> set (records data). title_of_record L d = Inl e"
proof (induction data)
  case Nil
  then show ?case by simp
next
  case (Cons x rest)
  show ?case
  proof (cases "\<exists>item. x = PDict item")
    case True
    then obtain item where x: "x = PDict item" by blast
    from Cons show ?thesis
      unfolding x coerce_items_PDict
      by (cases "title_of_record L item"; cases "coerce_items L rest") auto
  next
    case False
    with Cons show ?thesis
      by (simp add: coerce_items_other records_other)
  qed
qed

text \<open>
  Claim C8, as stated, fails: a record whose title is the empty string gives a slide
  with an empty title, and a record whose title is the integer 42 gives a slide with
  the title \<open>42\<close>, not the placeholder.
\<close>

theorem title_counterexample:
  "validate_and_coerce_slides demo_lib
     [PDict [(py ''title'', PStr [])], PDict [(py ''title'', PInt 42)]] 5
   = Inr [\<lparr>title = [], points = []\<rparr>, \<lparr>title = py ''42'', points = []\<rparr>]"
  by (simp add: validate_and_coerce_slides_def slice_to_def dict_get_def py_str_def
      demo_lib_def str_int_def digits.simps)

text \<open>
  Claim C8, amended: the slides are made, in order, from the records among the first
  \<open>max_slides\<close> items; the title of each slide is the placeholder \<open>Untitled Slide\<close>
  when the record has no title, the title itself when it is a string (empty when that
  string is empty), and the \<^verbatim>\<open>str()\<close> of the title when it has any other type; when
  \<^verbatim>\<open>str()\<close> raises on a title, the coercion raises that exception, at the first such
  record, and returns no slides.
\<close>

theorem title_of_coerced_slide:
  "map_sum id (map title) (validate_and_coerce_slides L data max_slides)
   = collect (map (title_of_record L) (records (slice_to data max_slides)))"
  by (simp add: validate_and_coerce_slides_def coerce_items_titles)

theorem title_of_coerced_slide_witness:
  "map_sum id (map title)
     (validate_and_coerce_slides demo_lib
        [PDict [(py ''points'', PList [])], PStr (py ''stray''),
         PDict [(py ''title'', PStr (py ''Syntax''))], PDict []] 3)
   = Inr [py ''Untitled Slide'', py ''Syntax'']"
  using title_of_coerced_slide [of demo_lib
      "[PDict [(py ''points'', PList [])], PStr (py ''stray''),
        PDict [(py ''title'', PStr (py ''Syntax''))], PDict []]" 3]
  by (simp add: slice_to_def title_of_record_def)

text \<open>
  Claim C9, as stated, fails: the point \<open> - first step \<close> is trimmed and keeps its
  leading dash, and the point made of a bullet glyph keeps the glyph. (The markers
  are removed later, by \<^verbatim>\<open>create_presentation\<close>, when the paragraph is written.)
\<close>

theorem points_keep_markers:
  "validate_and_coerce_slides demo_lib
     [PDict [(py ''title'', PStr (py ''Plan'')),
             (py ''points'', PList [PStr (py '' - first step ''), PStr ([8226, 32] @ py ''second'')])]] 5
   = Inr [\<lparr>title = py ''Plan'', points = [py ''- first step'', [8226, 32] @ py ''second'']\<rparr>]"
  by (simp add: validate_and_coerce_slides_def slice_to_def dict_get_def py_str_def
      strip_def isspace_def)

text \<open>
  Claim C9, amended: the points of each slide are the string entries of the record's
  list of points that are not blank, each trimmed of white space at both ends, in
  order, with any leading bullet or dash kept; every point is a non-empty string
  without white space at either end; entries that are not strings and blank entries
  are dropped; a points field that is absent or not a list gives no points. The points
  never make the coercion raise: it raises only the exception that \<^verbatim>\<open>str()\<close> raises on
  the title of a record.
\<close>

theorem points_of_coerced_slide:
  "(validate_and_coerce_slides L data max_slides = Inr slides \<longrightarrow>
      map points slides = map points_of_record (records (slice_to data max_slides))
      \<and> (\<forall>s \<in> set slides. \<forall>p \<in> set (points s). p \<noteq> [] \<and> strip p = p))
   \<and> (validate_and_coerce_slides L data max_slides = Inl e \<longrightarrow>
        (\<exists>d \<in> set (records (slice_to data max_slides)). title_of_record L d = Inl e))"
  using coerce_items_Inr [of L "slice_to data max_slides" slides]
    coerce_items_Inl [of L "slice_to data max_slides" e]
  by (simp add: validate_and_coerce_slides_def)

theorem points_of_coerced_slide_witness:
  "validate_and_coerce_slides demo_lib
     [PDict [(py ''points'', PList [PStr (py '' a ''), PInt 7, PStr (py ''  ''), PStr (py ''-b'')])],
      PDict [(py ''points'', PStr (py ''not a list''))]] 2
   = Inr [\<lparr>title = py ''Untitled Slide'', points = [py ''a'', py ''-b'']\<rparr>,
          \<lparr>title = py ''Untitled Slide'', points = []\<rparr>]
   \<and> map points_of_record
         (records (slice_to
            [PDict [(py ''points'', PList [PStr (py '' a ''), PInt 7, PStr (py ''  ''), PStr (py ''-b'')])],
             PDict [(py ''points'', PStr (py ''not a list''))]] 2))
     = [[py ''a'', py ''-b''], []]"
proof -
  have h: "validate_and_coerce_slides demo_lib
     [PDict [(py ''points'', PList [PStr (py '' a ''), PInt 7, PStr (py ''  ''), PStr (py ''-b'')])],
      PDict [(py ''points'', PStr (py ''not a list''))]] 2
   = Inr [\<lparr>title = py ''Untitled Slide'', points = [py ''a'', py ''-b'']\<rparr>,
          \<lparr>title = py ''Untitled Slide'', points = []\<rparr>]"
    by (simp add: validate_and_coerce_slides_def slice_to_def dict_get_def py_str_def
        strip_def isspace_def)
  show ?thesis
    using points_of_coerced_slide [where L = demo_lib and max_slides = 2
        and data = "[PDict [(py ''points'', PList [PStr (py '' a ''), PInt 7, PStr (py ''  ''), PStr (py ''-b'')])],
                     PDict [(py ''points'', PStr (py ''not a list''))]]"
        and slides = "[\<lparr>title = py ''Untitled Slide'', points = [py ''a'', py ''-b'']\<rparr>,
                       \<lparr>title = py ''Untitled Slide'', points = []\<rparr>]"]
      h
    by simp
qed

section \<open>Properties of the generation run\<close>

lemma stop_exn_is_stop: "stop_exn = GenerationStopped (py ''Generation stopped by user'')"
  by (simp add: stop_exn_def)

lemma create_presentation_error:
  "fst (create_presentation w slides template_path font_name font_size) = Inl e
   \<Longrightarrow> \<exists>m. e = PPTGenerationError m"
  by (auto simp: create_presentation_def Let_def split: sum.splits)

lemma coerce_fallback_take:
  assumes "strip topic \<noteq> []"
  shows "coerce_items L (take k (fallback_slides topic)) = Inr (take k (fallback_deck topic))"
proof -
  consider "k = 0" | "k = Suc 0" | m where "k = Suc (Suc m)"
    by (metis not0_implies_Suc)
  then show ?thesis
  proof cases
    case 1
    then show ?thesis by simp
  next
    case 2
    with assms show ?thesis
      by (simp add: fallback_slides_def fallback_deck_def Let_def dict_get_def py_str_def)
  next
    case 3
    with assms show ?thesis
      by (simp add: fallback_slides_def fallback_deck_def Let_def dict_get_def py_str_def
          strip_def isspace_def)
  qed
qed

lemma validate_fallback:
  assumes "strip topic \<noteq> []"
  shows "validate_and_coerce_slides L (fallback_slides topic) max_slides
         = Inr (slice_to (fallback_deck topic) max_slides)"
proof -
  have len: "length (fallback_slides topic) = length (fallback_deck topic)"
    by (simp add: fallback_slides_def fallback_deck_def)
  show ?thesis
    unfolding validate_and_coerce_slides_def slice_to_def len
    by (simp add: coerce_fallback_take [OF assms])
qed

text \<open>
  Claim C4: when the process exits with a return code other than 0 and the flag reads
  as set at the entry of \<^verbatim>\<open>ask_ollama\<close> or at any of the reads that follow the exit
  (line 163, before the test of the return code; line 168; line 183), the outcome is
  \<open>GenerationStopped\<close>; it is the \<open>PPTGenerationError\<close> of the failed process only
  when the flag reads as not set at all of them.
\<close>

theorem ask_ollama_nonzero_exit:
  assumes "ollama w model_name prompt timeout = Exited returncode stdout stderr"
    and "returncode \<noteq> 0"
  shows "fst (ask_ollama w timeout prompt model_name) =
           (if stopped w AskEntry \<or> stopped w AfterCommunicate \<or> stopped w NonZeroExit
               \<or> stopped w ExceptHandler
            then Inl stop_exn
            else Inl (PPTGenerationError
                       (py ''Ollama request failed: '' @ py ''Ollama failed: '' @
                        (if stderr \<noteq> [] then stderr else py ''Unknown error''))))"
  using assms by (simp add: ask_ollama_def ask_ollama_try_def stop_exn_def)

theorem ask_ollama_nonzero_exit_witness:
  "fst (ask_ollama killed_world 120 (py ''Write slides.'') (py ''qwen3'')) = Inl stop_exn"
proof -
  have o: "ollama killed_world (py ''qwen3'') (py ''Write slides.'') 120 = Exited (- 15) [] []"
    by (simp add: killed_world_def demo_world_def)
  have r: "(- 15 :: int) \<noteq> 0" by simp
  have s: "stopped killed_world AfterCommunicate"
    by (simp add: stopped_def killed_world_def demo_world_def)
  show ?thesis
    using ask_ollama_nonzero_exit [OF o r] s by simp
qed

text \<open>
  Claim C5: for every topic made of white space only (the empty topic included),
  \<^verbatim>\<open>generate_presentation\<close> raises \<open>PPTGenerationError\<close> with the text
  \<open>Topic cannot be empty\<close>, and the run has no effect: the configuration is not
  loaded, no model process is started, nothing is rendered.
\<close>

theorem blank_topic_rejected:
  assumes "\<forall>c \<in> set topic. isspace c"
  shows "generate_presentation w topic template_path font_name font_size
         = (Inl (PPTGenerationError (py ''Topic cannot be empty'')), [])"
  using assms by (simp add: generate_presentation_def strip_Nil_iff)

theorem blank_topic_rejected_witness:
  "generate_presentation demo_world [32, 9, 160] None (py ''Calibri'') 12
   = (Inl (PPTGenerationError (py ''Topic cannot be empty'')), [])"
proof -
  have h: "\<forall>c \<in> set [32, 9, 160]. isspace c"
    by (simp add: isspace_def)
  show ?thesis
    using blank_topic_rejected [OF h] by simp
qed

text \<open>
  Claim C3, as stated, fails: with the token set before the run starts and a blank
  topic, the check of the topic comes first and the run fails with the invalid-input
  error.
\<close>

theorem stop_with_blank_topic:
  "stopped stop_world BeforeStart
   \<and> generate_presentation stop_world (py ''  '') None (py ''Calibri'') 12
     = (Inl (PPTGenerationError (py ''Topic cannot be empty'')), [])"
  by (simp add: stopped_def stop_world_def generate_presentation_def strip_def isspace_def)

text \<open>
  Claim C3, amended: for every request with a topic that is not blank, if the token
  reads as set at the start of \<^verbatim>\<open>generate_presentation\<close>, the run yields
  \<open>GenerationStopped\<close> and has no effect; and if the token reads as not set there and
  as set at the entry of \<^verbatim>\<open>ask_ollama\<close>, and the prompt was built, the run yields
  \<open>GenerationStopped\<close> after loading the configuration, with no model process
  started.
\<close>

theorem stop_before_model:
  assumes "strip topic \<noteq> []"
  shows "(stopped w BeforeStart \<longrightarrow>
            generate_presentation w topic template_path font_name font_size = (Inl stop_exn, []))
       \<and> (\<not> stopped w BeforeStart \<and> stopped w AskEntry
            \<and> build_prompt (lib w) (load_config w) topic = Inr prompt \<longrightarrow>
            generate_presentation w topic template_path font_name font_size
              = (Inl stop_exn, [LoadConfig]))"
  using assms
  by (simp add: generate_presentation_def generate_try_def Let_def ask_ollama_def stop_exn_def)

theorem stop_before_model_witness:
  "generate_presentation stop_world (py ''Python basics'') None (py ''Calibri'') 12
     = (Inl stop_exn, [])
   \<and> generate_presentation late_stop_world (py ''Python basics'') None (py ''Calibri'') 12
     = (Inl stop_exn, [LoadConfig])"
proof -
  have t: "strip (py ''Python basics'') \<noteq> []"
    by (simp add: strip_def isspace_def)
  have s1: "stopped stop_world BeforeStart"
    by (simp add: stopped_def stop_world_def)
  have s2: "\<not> stopped late_stop_world BeforeStart \<and> stopped late_stop_world AskEntry"
    by (simp add: stopped_def late_stop_world_def)
  have p: "build_prompt (lib late_stop_world) (load_config late_stop_world) (py ''Python basics'')
           = Inr (py ''Write slides.'')"
    by (simp add: build_prompt_def late_stop_world_def demo_world_def demo_lib_def
        demo_config_def demo_format_def)
  show ?thesis
    using stop_before_model [OF t, where w = stop_world and template_path = None
          and font_name = "py ''Calibri''" and font_size = 12]
      stop_before_model [OF t, where w = late_stop_world and prompt = "py ''Write slides.''"
          and template_path = None and font_name = "py ''Calibri''" and font_size = 12]
      s1 s2 p
    by simp
qed

text \<open>
  Claim C10: for every input, \<^verbatim>\<open>generate_presentation\<close> returns a pair of file path and
  metadata, or raises \<open>GenerationStopped\<close>, or raises \<open>PPTGenerationError\<close>; and an
  exception of any other class that leaves the body of its \<^verbatim>\<open>try\<close> is raised again as
  a \<open>PPTGenerationError\<close> whose text is \<open>Failed to generate presentation: \<close> followed
  by the text of the exception.
\<close>

theorem generate_raises_two_classes:
  "((\<exists>file_path md. fst (generate_presentation w topic template_path font_name font_size)
                      = Inr (file_path, md))
    \<or> (\<exists>m. fst (generate_presentation w topic template_path font_name font_size)
            = Inl (GenerationStopped m))
    \<or> (\<exists>m. fst (generate_presentation w topic template_path font_name font_size)
            = Inl (PPTGenerationError m)))
   \<and> (strip topic \<noteq> [] \<and> \<not> stopped w BeforeStart
        \<and> generate_try w topic template_path font_name font_size = (Inl e, tr)
        \<and> (\<forall>m. e \<noteq> GenerationStopped m)
      \<longrightarrow> generate_presentation w topic template_path font_name font_size
            = (Inl (PPTGenerationError (py ''Failed to generate presentation: '' @ exn_str e)), tr))"
proof
  obtain r tr' where g: "generate_try w topic template_path font_name font_size = (r, tr')"
    by (cases "generate_try w topic template_path font_name font_size")
  show "(\<exists>file_path md. fst (generate_presentation w topic template_path font_name font_size)
                      = Inr (file_path, md))
    \<or> (\<exists>m. fst (generate_presentation w topic template_path font_name font_size)
            = Inl (GenerationStopped m))
    \<or> (\<exists>m. fst (generate_presentation w topic template_path font_name font_size)
            = Inl (PPTGenerationError m))"
  proof (cases r)
    case (Inl e')
    with g show ?thesis
      by (cases e') (simp_all add: generate_presentation_def stop_exn_def)
  next
    case (Inr v)
    with g show ?thesis
      by (cases v) (simp add: generate_presentation_def stop_exn_def)
  qed
next
  show "strip topic \<noteq> [] \<and> \<not> stopped w BeforeStart
        \<and> generate_try w topic template_path font_name font_size = (Inl e, tr)
        \<and> (\<forall>m. e \<noteq> GenerationStopped m)
      \<longrightarrow> generate_presentation w topic template_path font_name font_size
            = (Inl (PPTGenerationError (py ''Failed to generate presentation: '' @ exn_str e)), tr)"
    by (cases e) (simp_all add: generate_presentation_def)
qed

theorem generate_raises_two_classes_witness:
  "generate_presentation bad_template_world (py ''Python basics'') None (py ''Calibri'') 12
   = (Inl (PPTGenerationError (py ''Failed to generate presentation: '' @ [39] @ py ''topic'' @ [39])),
      [LoadConfig])"
proof -
  have t: "strip (py ''Python basics'') \<noteq> []"
    by (simp add: strip_def isspace_def)
  have s: "\<not> stopped bad_template_world BeforeStart"
    by (simp add: stopped_def bad_template_world_def demo_world_def)
  have p: "build_prompt (lib bad_template_world) (load_config bad_template_world) (py ''Python basics'')
           = Inl (OtherException ([39] @ py ''topic'' @ [39]))"
    by (simp add: build_prompt_def bad_template_world_def demo_world_def demo_lib_def
        demo_config_def demo_format_def)
  have g: "generate_try bad_template_world (py ''Python basics'') None (py ''Calibri'') 12
           = (Inl (OtherException ([39] @ py ''topic'' @ [39])), [LoadConfig])"
    unfolding generate_try_def Let_def p by simp
  have n: "\<forall>m. OtherException ([39] @ py ''topic'' @ [39]) \<noteq> GenerationStopped m"
    by simp
  show ?thesis
    using generate_raises_two_classes [where w = bad_template_world
          and topic = "py ''Python basics''" and template_path = None
          and font_name = "py ''Calibri''" and font_size = 12
          and e = "OtherException ([39] @ py ''topic'' @ [39])" and tr = "[LoadConfig]"]
      t s g n
    by simp
qed


lemma slice_to_all: "int (length xs) \<le> n \<Longrightarrow> slice_to xs n = xs"
  by (simp add: slice_to_def)

lemma generate_empty_parse:
  assumes "strip topic \<noteq> []" and "\<not> stopped w BeforeStart"
    and "build_prompt (lib w) (load_config w) topic = Inr prompt"
    and "fst (ask_ollama w (cfg_ollama_timeout (load_config w)) prompt (cfg_model (load_config w)))
         = Inr response"
    and "\<not> stopped w AfterResponse"
    and "extract_and_parse_json (lib w) response = Inr None
         \<or> extract_and_parse_json (lib w) response = Inr (Some [])"
  shows "fst (generate_presentation w topic template_path font_name font_size) =
     (if stopped w AfterEmptyParse \<or> stopped w BeforeRender then Inl stop_exn
      else
        (case fst (create_presentation w
                     (slice_to (fallback_deck topic) (max_slides_for (lib w) (load_config w) topic))
                     template_path font_name font_size) of
           Inl e \<Rightarrow> Inl (PPTGenerationError (py ''Failed to generate presentation: '' @ exn_str e))
         | Inr file_path \<Rightarrow>
             Inr (file_path,
                  \<lparr>md_slide_count =
                     length (slice_to (fallback_deck topic)
                               (max_slides_for (lib w) (load_config w) topic)),
                   md_topic = topic,
                   md_template_used = template_found w template_path\<rparr>)))"
proof -
  define n where "n = max_slides_for (lib w) (load_config w) topic"
  define deck where "deck = slice_to (fallback_deck topic) n"
  obtain tr where a: "ask_ollama w (cfg_ollama_timeout (load_config w)) prompt (cfg_model (load_config w))
                      = (Inr response, tr)"
    using assms(4) by (metis prod.collapse)
  have v: "validate_and_coerce_slides (lib w) (fallback_slides topic) n = Inr deck"
    unfolding deck_def by (rule validate_fallback [OF assms(1)])
  obtain c tr' where c: "create_presentation w deck template_path font_name font_size = (c, tr')"
    by (cases "create_presentation w deck template_path font_name font_size")
  have ap: "after_parse w topic template_path font_name font_size n sd =
            (if stopped w AfterEmptyParse then (Inl stop_exn, [])
             else render_deck w topic template_path font_name font_size n (fallback_slides topic))"
    if "sd = None \<or> sd = Some []" for sd
    using that by (auto simp: after_parse_def)
  have rd: "fst (render_deck w topic template_path font_name font_size n (fallback_slides topic)) =
            (if stopped w BeforeRender then Inl stop_exn
             else (case c of Inl e \<Rightarrow> Inl e
                   | Inr file_path \<Rightarrow>
                       Inr (file_path, \<lparr>md_slide_count = length deck, md_topic = topic,
                                        md_template_used = template_found w template_path\<rparr>)))"
    by (simp add: render_deck_def Let_def v c split: sum.splits)
  have cerr: "\<exists>m. e = PPTGenerationError m" if "c = Inl e" for e
    using create_presentation_error [of w deck template_path font_name font_size e] c that
    by simp
  obtain sd where sd: "extract_and_parse_json (lib w) response = Inr sd" "sd = None \<or> sd = Some []"
    using assms(6) by blast
  have gt: "fst (generate_try w topic template_path font_name font_size) =
            (if stopped w AfterEmptyParse then Inl stop_exn
             else fst (render_deck w topic template_path font_name font_size n (fallback_slides topic)))"
    unfolding generate_try_def Let_def assms(3) n_def [symmetric]
    using a assms(5) sd(1) ap [OF sd(2)]
    by (simp split: prod.splits)
  show ?thesis
  proof (cases "stopped w AfterEmptyParse \<or> stopped w BeforeRender")
    case True
    then have "fst (generate_try w topic template_path font_name font_size) = Inl stop_exn"
      using gt rd by auto
    then show ?thesis
      using True assms(1,2)
      by (auto simp: generate_presentation_def stop_exn_def split: prod.splits sum.splits exn.splits)
  next
    case False
    then have g: "fst (generate_try w topic template_path font_name font_size) =
        (case c of Inl e \<Rightarrow> Inl e
         | Inr file_path \<Rightarrow>
             Inr (file_path, \<lparr>md_slide_count = length deck, md_topic = topic,
                              md_template_used = template_found w template_path\<rparr>))"
      using gt rd by simp
    show ?thesis
    proof (cases c)
      case (Inl e)
      then obtain m where m: "e = PPTGenerationError m" using cerr by blast
      with Inl g False assms(1,2) c show ?thesis
        unfolding n_def [symmetric] deck_def [symmetric]
        by (auto simp: generate_presentation_def split: prod.splits)
    next
      case (Inr file_path)
      with g False assms(1,2) c show ?thesis
        unfolding n_def [symmetric] deck_def [symmetric]
        by (auto simp: generate_presentation_def split: prod.splits)
    qed
  qed
qed

text \<open>The run of the examples: the topic \<open>Python basics\<close>, a reply in plain prose.\<close>

lemma strip_python_basics: "strip (py ''Python basics'') = py ''Python basics''"
  by (simp add: strip_def isspace_def)

lemma max_slides_python_basics:
  "max_slides_for demo_lib demo_config (py ''Python basics'') = 5"
proof -
  have l: "lower demo_lib (py ''Python basics'') = py ''python basics''"
    by (simp add: demo_lib_def ascii_lower_def)
  have b: "filter (\<lambda>w. py_in w (py ''python basics'')) broad = []"
    by (simp add: broad_def)
  have p: "filter (\<lambda>w. py_in w (py ''python basics'')) process = []"
    by (simp add: process_def)
  have t: "filter (\<lambda>w. py_in w (py ''python basics'')) training = []"
    by (simp add: training_def)
  have c: "count_char (py ''python basics'') (of_char CHR '','') = 0"
    by (simp add: count_char_def)
  have w: "length (split (py ''Python basics'')) = 2"
    by (simp add: split_def isspace_def)
  have "estimate_slide_count_from_keywords demo_lib (py ''Python basics'') = 5"
    unfolding estimate_formula l b p t c w by simp
  then show ?thesis
    by (simp add: max_slides_for_def demo_config_def)
qed

lemma prose_reply_empty:
  "extract_and_parse_json demo_lib (py ''Sorry, no outline today.'') = Inr None"
proof -
  have m: "json_match (py ''Sorry, no outline today.'') = None"
    by (simp add: json_match_def open_tag_def)
  have a: "first_array (py ''Sorry, no outline today.'') = None"
    by (simp add: first_array_def)
  show ?thesis
    unfolding extract_and_parse_json_def m a by simp
qed

lemma slice_fallback_deck_5: "slice_to (fallback_deck topic) 5 = fallback_deck topic"
  by (rule slice_to_all) (simp add: fallback_deck_def)

text \<open>
  Claim C1: in every run that reaches the extractor and in which it returns no
  structure (\<^verbatim>\<open>None\<close> or an empty list), \<^verbatim>\<open>generate_presentation\<close> substitutes the fixed
  two-slide fallback outline, cut to the slide bound: a title slide that echoes the
  trimmed topic with no points, and the slide \<open>Overview\<close> with four points (the whole
  outline when the bound is at least 2, as under the default configuration). The run
  completes with the file and the metadata of that deck whenever the token does not
  read as set at the two checkpoints that remain and \<^verbatim>\<open>create_presentation\<close> returns
  the file. It ends with a \<open>PPTGenerationError\<close> only when \<^verbatim>\<open>create_presentation\<close>
  itself raises: the empty extraction never makes the run fail.
\<close>

theorem fallback_on_empty_extraction:
  assumes "strip topic \<noteq> []" and "\<not> stopped w BeforeStart"
    and "build_prompt (lib w) (load_config w) topic = Inr prompt"
    and "fst (ask_ollama w (cfg_ollama_timeout (load_config w)) prompt (cfg_model (load_config w)))
         = Inr response"
    and "\<not> stopped w AfterResponse"
    and "extract_and_parse_json (lib w) response = Inr None
         \<or> extract_and_parse_json (lib w) response = Inr (Some [])"
  shows "fst (generate_presentation w topic template_path font_name font_size) =
     (if stopped w AfterEmptyParse \<or> stopped w BeforeRender then Inl stop_exn
      else
        (case fst (create_presentation w
                     (slice_to (fallback_deck topic) (max_slides_for (lib w) (load_config w) topic))
                     template_path font_name font_size) of
           Inl e \<Rightarrow> Inl (PPTGenerationError (py ''Failed to generate presentation: '' @ exn_str e))
         | Inr file_path \<Rightarrow>
             Inr (file_path,
                  \<lparr>md_slide_count =
                     length (slice_to (fallback_deck topic)
                               (max_slides_for (lib w) (load_config w) topic)),
                   md_topic = topic,
                   md_template_used = template_found w template_path\<rparr>)))
     \<and> (2 \<le> max_slides_for (lib w) (load_config w) topic \<longrightarrow>
          slice_to (fallback_deck topic) (max_slides_for (lib w) (load_config w) topic)
          = fallback_deck topic)
     \<and> (\<not> stopped w AfterEmptyParse \<and> \<not> stopped w BeforeRender
          \<and> fst (create_presentation w
                    (slice_to (fallback_deck topic) (max_slides_for (lib w) (load_config w) topic))
                    template_path font_name font_size) = Inr saved \<longrightarrow>
          fst (generate_presentation w topic template_path font_name font_size)
          = Inr (saved,
                 \<lparr>md_slide_count =
                    length (slice_to (fallback_deck topic)
                              (max_slides_for (lib w) (load_config w) topic)),
                  md_topic = topic,
                  md_template_used = template_found w template_path\<rparr>))
     \<and> (fst (generate_presentation w topic template_path font_name font_size)
            = Inl (PPTGenerationError m) \<longrightarrow>
          (\<exists>e. fst (create_presentation w
                      (slice_to (fallback_deck topic) (max_slides_for (lib w) (load_config w) topic))
                      template_path font_name font_size) = Inl e))"
proof -
  define deck where
    "deck = slice_to (fallback_deck topic) (max_slides_for (lib w) (load_config w) topic)"
  define c where "c = fst (create_presentation w deck template_path font_name font_size)"
  define g where "g = fst (generate_presentation w topic template_path font_name font_size)"
  define md where
    "md = \<lparr>md_slide_count = length deck, md_topic = topic,
           md_template_used = template_found w template_path\<rparr>"
  have eq: "g = (if stopped w AfterEmptyParse \<or> stopped w BeforeRender then Inl stop_exn
                 else (case c of
                         Inl e \<Rightarrow> Inl (PPTGenerationError
                                         (py ''Failed to generate presentation: '' @ exn_str e))
                       | Inr file_path \<Rightarrow> Inr (file_path, md)))"
    unfolding g_def c_def md_def deck_def by (rule generate_empty_parse [OF assms])
  have whole: "2 \<le> max_slides_for (lib w) (load_config w) topic \<longrightarrow> deck = fallback_deck topic"
    unfolding deck_def by (auto intro!: slice_to_all simp: fallback_deck_def)
  have completes: "\<not> stopped w AfterEmptyParse \<and> \<not> stopped w BeforeRender \<and> c = Inr saved
              \<longrightarrow> g = Inr (saved, md)"
    using eq by simp
  have fails: "g = Inl (PPTGenerationError m) \<longrightarrow> (\<exists>e. c = Inl e)"
    using eq by (auto simp: stop_exn_def split: if_splits sum.splits)
  show ?thesis
    using eq whole completes fails unfolding g_def c_def md_def deck_def by blast
qed

theorem fallback_on_empty_extraction_witness:
  "fst (generate_presentation demo_world (py ''Python basics'') None (py ''Calibri'') 12)
   = Inr (py ''/tmp/tmp1.pptx'',
          \<lparr>md_slide_count = 2, md_topic = py ''Python basics'', md_template_used = False\<rparr>)"
proof -
  have l: "lib demo_world = demo_lib" "load_config demo_world = demo_config"
    by (simp_all add: demo_world_def)
  have c: "cfg_ollama_timeout demo_config = 120" "cfg_model demo_config = py ''qwen3''"
    by (simp_all add: demo_config_def)
  have s: "\<not> stopped demo_world cp" for cp
    by (simp add: stopped_def demo_world_def)
  have t: "strip (py ''Python basics'') \<noteq> []"
    unfolding strip_python_basics by simp
  have p: "build_prompt (lib demo_world) (load_config demo_world) (py ''Python basics'')
           = Inr (py ''Write slides.'')"
    by (simp add: build_prompt_def l demo_lib_def demo_config_def demo_format_def)
  have o: "ollama demo_world model_name prompt timeout
           = Exited 0 (py ''Sorry, no outline today.'') []" for model_name prompt timeout
    by (simp add: demo_world_def)
  have a: "fst (ask_ollama demo_world (cfg_ollama_timeout (load_config demo_world))
                  (py ''Write slides.'') (cfg_model (load_config demo_world)))
           = Inr (py ''Sorry, no outline today.'')"
    unfolding l c
    by (simp add: ask_ollama_def ask_ollama_try_def s o strip_def isspace_def)
  have e: "extract_and_parse_json (lib demo_world) (py ''Sorry, no outline today.'') = Inr None"
    unfolding l by (rule prose_reply_empty)
  have m: "max_slides_for (lib demo_world) (load_config demo_world) (py ''Python basics'') = 5"
    unfolding l by (rule max_slides_python_basics)
  have r: "fst (create_presentation demo_world (fallback_deck (py ''Python basics''))
                  None (py ''Calibri'') 12)
           = Inr (py ''/tmp/tmp1.pptx'')"
    by (simp add: create_presentation_def Let_def demo_world_def)
  have f: "template_found demo_world None = False"
    by (simp add: template_found_def)
  have n: "length (fallback_deck (py ''Python basics'')) = 2"
    by (simp add: fallback_deck_def)
  show ?thesis
    using fallback_on_empty_extraction [OF t s p a s disjI1 [OF e],
        where template_path = None and font_name = "py ''Calibri''" and font_size = 12
          and saved = "py ''/tmp/tmp1.pptx''"]
    unfolding m slice_fallback_deck_5 r f n by (simp add: s)
qed

end
